theory Spec2Isabelle
  imports Main
begin

section \<open>Python text primitives used by the views\<close>

text \<open>
  Labels, notes and request parameters are Python strings. They are modelled as
  \<^typ>\<open>string\<close>, one \<^typ>\<open>char\<close> per code point below 256; text outside that
  range is not modelled.
\<close>

definition is_decimal_char :: "char \<Rightarrow> bool" where
  "is_decimal_char c = (48 \<le> (of_char c :: nat) \<and> (of_char c :: nat) \<le> 57)"

text \<open>
  The characters \<^verbatim>\<open>str.isdigit()\<close> accepts below 256: the decimal digits and the
  superscript digits U+00B2, U+00B3 and U+00B9, which \<^verbatim>\<open>int()\<close> does not read.
\<close>

definition is_digit_char :: "char \<Rightarrow> bool" where
  "is_digit_char c = (is_decimal_char c \<or> (of_char c :: nat) \<in> {178, 179, 185})"

text \<open>\<^verbatim>\<open>str.isdigit()\<close>: non-empty and every character a digit.\<close>

definition isdigit :: "string \<Rightarrow> bool" where
  "isdigit s = (s \<noteq> [] \<and> list_all is_digit_char s)"

definition digit_val :: "char \<Rightarrow> nat" where
  "digit_val c = (of_char c :: nat) - 48"

definition digit_char :: "nat \<Rightarrow> char" where
  "digit_char d = char_of (48 + d)"

text \<open>The value of a string of decimal digits (leading zeros allowed).\<close>

definition nat_of_digits :: "string \<Rightarrow> nat" where
  "nat_of_digits s = foldl (\<lambda>a c. 10 * a + digit_val c) 0 s"

definition int_of_digits :: "string \<Rightarrow> int" where
  "int_of_digits s = int (nat_of_digits s)"

function str_nat :: "nat \<Rightarrow> string" where
  "str_nat n = (if n < 10 then [digit_char n] else str_nat (n div 10) @ [digit_char (n mod 10)])"
  by pat_completeness auto
termination
  by (relation "measure (\<lambda>n. n)") auto

declare str_nat.simps [simp del]

text \<open>\<^verbatim>\<open>str(i)\<close> for a Python integer.\<close>

definition str :: "int \<Rightarrow> string" where
  "str i = (if i < 0 then CHR ''-'' # str_nat (nat (- i)) else str_nat (nat i))"

text \<open>\<^verbatim>\<open>str.isspace()\<close> on one character, for code points below 256.\<close>

definition is_space_char :: "char \<Rightarrow> bool" where
  "is_space_char c = ((of_char c :: nat) \<in> {9, 10, 11, 12, 13, 28, 29, 30, 31, 32, 133, 160})"

text \<open>\<^verbatim>\<open>str.strip()\<close> with no argument.\<close>

definition strip :: "string \<Rightarrow> string" where
  "strip s = rev (dropWhile is_space_char (rev (dropWhile is_space_char s)))"

text \<open>
  The blanks \<^verbatim>\<open>int(text)\<close> drops at both ends, below 256. They are fewer than those of
  \<^verbatim>\<open>str.strip()\<close>: the separators U+001C to U+001F are not among them.
\<close>

definition is_int_space_char :: "char \<Rightarrow> bool" where
  "is_int_space_char c = ((of_char c :: nat) \<in> {9, 10, 11, 12, 13, 32, 133, 160})"

definition int_strip :: "string \<Rightarrow> string" where
  "int_strip s = rev (dropWhile is_int_space_char (rev (dropWhile is_int_space_char s)))"

text \<open>
  The digit part accepted by \<^verbatim>\<open>int(text)\<close>: digits, with single underscores allowed
  between digits.
\<close>

fun digits_body_ok :: "string \<Rightarrow> bool" where
  "digits_body_ok [] = False"
| "digits_body_ok [c] = is_decimal_char c"
| "digits_body_ok (c # d # r) =
     (is_decimal_char c \<and>
      (if d = CHR ''_'' then digits_body_ok r else digits_body_ok (d # r)))"

definition parse_digits :: "string \<Rightarrow> int option" where
  "parse_digits s =
     (if digits_body_ok s then Some (int_of_digits (filter (\<lambda>c. c \<noteq> CHR ''_'') s)) else None)"

text \<open>
  \<^verbatim>\<open>int(text)\<close>: the blanks at both ends are dropped, one sign is allowed; \<open>None\<close>
  stands for the \<^verbatim>\<open>ValueError\<close>.
\<close>

definition py_int :: "string \<Rightarrow> int option" where
  "py_int s =
     (case int_strip s of
        [] \<Rightarrow> None
      | c # r \<Rightarrow>
          if c = CHR ''-'' then map_option uminus (parse_digits r)
          else if c = CHR ''+'' then parse_digits r
          else parse_digits (c # r))"

text \<open>\<^verbatim>\<open>sep.join(parts)\<close>.\<close>

fun join :: "string \<Rightarrow> string list \<Rightarrow> string" where
  "join sep [] = []"
| "join sep [x] = x"
| "join sep (x # y # r) = x @ sep @ join sep (y # r)"

section \<open>Data model (models.py)\<close>

text \<open>
  One record per model class, with the fields the views read or write. Primary keys are
  the integers the storage hands out. Fields filled in by the storage itself
  (\<^verbatim>\<open>auto_now_add\<close> time stamps) and the legacy \<^verbatim>\<open>OrderLine\<close> are left out.
\<close>

record Table =
  table_id :: int
  table_number :: int
  table_room :: int
  table_party :: "int option"

record StaffMember =
  staff_id :: int
  staff_name :: string

record MenuItem =
  item_id :: int
  item_name :: string

record Order =
  order_id :: int
  order_table :: int
  order_party :: "int option"
  order_opened_by_staff :: "int option"
  order_opened_at :: nat
  order_printed :: bool

record Seat =
  seat_id :: int
  seat_order :: int
  seat_label :: string
  seat_assigned_to :: "int option"

record SeatSelection =
  sel_id :: int
  sel_seat :: int
  sel_item :: int
  sel_notes :: string
  sel_modifiers :: "int set"
  sel_temperatures :: "int set"

record StaffLog =
  log_staff :: int
  log_action :: string

text \<open>
  The stored state. \<open>db_modifiers\<close> and \<open>db_temperatures\<close> hold the primary keys of the
  catalogue rows. \<open>enforce_max_length\<close> says whether the storage backend rejects a text
  longer than the \<^verbatim>\<open>max_length\<close> of its column (SQLite does not, other backends do).
\<close>

record database =
  db_tables :: "Table list"
  db_staff_members :: "StaffMember list"
  db_menu_items :: "MenuItem list"
  db_modifiers :: "int set"
  db_temperatures :: "int set"
  db_orders :: "Order list"
  db_seats :: "Seat list"
  db_selections :: "SeatSelection list"
  db_staff_logs :: "StaffLog list"
  next_order_id :: int
  next_seat_id :: int
  next_selection_id :: int
  enforce_max_length :: bool

section \<open>Requests, responses and failures\<close>

datatype http_method = GET | POST

text \<open>
  \<open>req_POST\<close> and \<open>req_GET\<close> are the \<^verbatim>\<open>QueryDict\<close>s, as the key/value pairs in the
  order they were sent. \<open>session_staff_id\<close> is \<^verbatim>\<open>request.session.get("staff_id")\<close>.
\<close>

record request =
  req_method :: http_method
  req_POST :: "(string \<times> string) list"
  req_GET :: "(string \<times> string) list"
  session_staff_id :: "int option"

datatype error =
    Http404 | ValueError | DoesNotExist | MultipleObjectsReturned | IntegrityError | DataError

datatype level = INFO | SUCCESS | WARNING | ERROR

datatype route = Staff_login | Start_order int | Table_detail int | Room_tables int

text \<open>
  A redirect names its route and the query string appended to the reversed URL. A view
  either raises, or returns a response together with the messages it queued.
\<close>

datatype response =
    Redirect route string
  | JsonResponse nat "(string \<times> string) list"
  | HttpResponseNotAllowed

datatype outcome = Raised error | Returned response "(level \<times> string) list"

type_synonym result = "outcome \<times> database"

definition querydict_getlist :: "(string \<times> string) list \<Rightarrow> string \<Rightarrow> string list" where
  "querydict_getlist q k = map snd (filter (\<lambda>p. fst p = k) q)"

text \<open>\<^verbatim>\<open>QueryDict.get(key)\<close>: the last value sent for the key, \<open>None\<close> without one.\<close>

definition querydict_get :: "(string \<times> string) list \<Rightarrow> string \<Rightarrow> string option" where
  "querydict_get q k =
     (case querydict_getlist q k of [] \<Rightarrow> None | v # vs \<Rightarrow> Some (last (v # vs)))"

text \<open>
  The staff id of the session where \<^verbatim>\<open>if staff_id:\<close> holds: an absent entry and \<open>0\<close>
  are false.
\<close>

definition session_staff :: "request \<Rightarrow> int option" where
  "session_staff request =
     (case session_staff_id request of
        None \<Rightarrow> None
      | Some sid \<Rightarrow> if sid = 0 then None else Some sid)"

text \<open>The character U+2013 of some message texts, as its UTF-8 bytes.\<close>

definition en_dash :: string where
  "en_dash = [CHR 0xE2, CHR 0x80, CHR 0x93]"

section \<open>Storage operations\<close>

definition get_object_or_404 :: "('a \<Rightarrow> int) \<Rightarrow> 'a list \<Rightarrow> int \<Rightarrow> error + 'a" where
  "get_object_or_404 pk rows k =
     (case find (\<lambda>r. pk r = k) rows of None \<Rightarrow> Inl Http404 | Some r \<Rightarrow> Inr r)"

text \<open>\<^verbatim>\<open>Model.objects.get(pk=k)\<close> and the navigation of a foreign key.\<close>

definition objects_get :: "('a \<Rightarrow> int) \<Rightarrow> 'a list \<Rightarrow> int \<Rightarrow> error + 'a" where
  "objects_get pk rows k =
     (case find (\<lambda>r. pk r = k) rows of None \<Rightarrow> Inl DoesNotExist | Some r \<Rightarrow> Inr r)"

text \<open>
  A lookup whose key is still the text of a request parameter: a missing parameter
  matches no row, a text that is no integer raises \<^verbatim>\<open>ValueError\<close>.
\<close>

definition get_object_or_404_raw :: "('a \<Rightarrow> int) \<Rightarrow> 'a list \<Rightarrow> string option \<Rightarrow> error + 'a" where
  "get_object_or_404_raw pk rows raw =
     (case raw of
        None \<Rightarrow> Inl Http404
      | Some s \<Rightarrow>
          (case py_int s of None \<Rightarrow> Inl ValueError | Some k \<Rightarrow> get_object_or_404 pk rows k))"

definition varchar_ok :: "database \<Rightarrow> nat \<Rightarrow> string \<Rightarrow> bool" where
  "varchar_ok db n s = (if enforce_max_length db then length s \<le> n else True)"

definition seat_labels :: "database \<Rightarrow> int \<Rightarrow> string list" where
  "seat_labels db oid = map seat_label (filter (\<lambda>s. seat_order s = oid) (db_seats db))"

text \<open>An unsaved \<^verbatim>\<open>Seat(order=..., label=..., assigned_to=...)\<close>.\<close>

type_synonym unsaved_seat = "int \<times> string \<times> int option"

definition save_seat :: "int \<Rightarrow> unsaved_seat \<Rightarrow> Seat" where
  "save_seat i u =
     \<lparr>seat_id = i, seat_order = fst u, seat_label = fst (snd u), seat_assigned_to = snd (snd u)\<rparr>"

text \<open>
  \<^verbatim>\<open>Seat.objects.bulk_create(batch)\<close>: all rows or none. The label column is
  \<^verbatim>\<open>CharField(max_length=10)\<close>, and \<^verbatim>\<open>unique_together = ("order", "label")\<close> rejects a
  batch that repeats a label of its order.
\<close>

definition bulk_create :: "unsaved_seat list \<Rightarrow> database \<Rightarrow> error + database" where
  "bulk_create batch db =
     (if list_ex (\<lambda>u. \<not> varchar_ok db 10 (fst (snd u))) batch then Inl DataError
      else if list_ex (\<lambda>u. fst (snd u) \<in> set (seat_labels db (fst u))) batch
              \<or> \<not> distinct (map (\<lambda>u. (fst u, fst (snd u))) batch)
      then Inl IntegrityError
      else Inr (db\<lparr>db_seats := db_seats db @
                     map (\<lambda>(j, u). save_seat (next_seat_id db + int j) u)
                       (zip [0..<length batch] batch),
                   next_seat_id := next_seat_id db + int (length batch)\<rparr>))"

text \<open>\<^verbatim>\<open>Seat.objects.create(order=order, label=label)\<close>; \<open>assigned_to\<close> stays empty.\<close>

definition seat_create :: "int \<Rightarrow> string \<Rightarrow> database \<Rightarrow> error + (Seat \<times> database)" where
  "seat_create oid l db =
     (case bulk_create [(oid, l, None)] db of
        Inl e \<Rightarrow> Inl e
      | Inr db' \<Rightarrow> Inr (save_seat (next_seat_id db) (oid, l, None), db'))"

definition order_create :: "Table \<Rightarrow> StaffMember \<Rightarrow> nat \<Rightarrow> database \<Rightarrow> Order \<times> database" where
  "order_create table staff_member now db =
     (let order = \<lparr>order_id = next_order_id db, order_table = table_id table,
                    order_party = table_party table,
                    order_opened_by_staff = Some (staff_id staff_member),
                    order_opened_at = now, order_printed = False\<rparr>
      in (order, db\<lparr>db_orders := db_orders db @ [order],
                     next_order_id := next_order_id db + 1\<rparr>))"

text \<open>
  \<^verbatim>\<open>StaffLog.objects.create(staff_id=..., action=...)\<close>: the action column is
  \<^verbatim>\<open>CharField(max_length=120)\<close> and the staff member is a foreign key.
\<close>

definition stafflog_create :: "int \<Rightarrow> string \<Rightarrow> database \<Rightarrow> error + database" where
  "stafflog_create sid action db =
     (if \<not> varchar_ok db 120 action then Inl DataError
      else if find (\<lambda>m. staff_id m = sid) (db_staff_members db) = None then Inl IntegrityError
      else Inr (db\<lparr>db_staff_logs := db_staff_logs db @ [\<lparr>log_staff = sid, log_action = action\<rparr>]\<rparr>))"

text \<open>\<^verbatim>\<open>with transaction.atomic():\<close> a block that raises leaves the state as it found it.\<close>

definition atomic :: "(database \<Rightarrow> (error + 'a) \<times> database) \<Rightarrow> database \<Rightarrow> (error + 'a) \<times> database" where
  "atomic body db = (case body db of (Inl e, _) \<Rightarrow> (Inl e, db) | (Inr v, db') \<Rightarrow> (Inr v, db'))"

text \<open>Deleting cascades from Order to Seat to SeatSelection.\<close>

definition seat_delete :: "int \<Rightarrow> database \<Rightarrow> database" where
  "seat_delete sid db =
     db\<lparr>db_seats := filter (\<lambda>s. seat_id s \<noteq> sid) (db_seats db),
        db_selections := filter (\<lambda>x. sel_seat x \<noteq> sid) (db_selections db)\<rparr>"

definition order_delete :: "int \<Rightarrow> database \<Rightarrow> database" where
  "order_delete oid db =
     (let gone = map seat_id (filter (\<lambda>s. seat_order s = oid) (db_seats db))
      in db\<lparr>db_orders := filter (\<lambda>r. order_id r \<noteq> oid) (db_orders db),
            db_seats := filter (\<lambda>s. seat_order s \<noteq> oid) (db_seats db),
            db_selections := filter (\<lambda>x. sel_seat x \<notin> set gone) (db_selections db)\<rparr>)"

definition selection_delete :: "int \<Rightarrow> database \<Rightarrow> database" where
  "selection_delete k db = db\<lparr>db_selections := filter (\<lambda>x. sel_id x \<noteq> k) (db_selections db)\<rparr>"

text \<open>
  \<^verbatim>\<open>Order.objects.filter(table=table, printed=False).first()\<close> under
  \<^verbatim>\<open>ordering = ['-opened_at']\<close>: the open order opened last (among equal times, the one
  stored first).
\<close>

fun newest :: "Order list \<Rightarrow> Order option" where
  "newest [] = None"
| "newest (x # xs) =
     (case newest xs of
        None \<Rightarrow> Some x
      | Some y \<Rightarrow> if order_opened_at x < order_opened_at y then Some y else Some x)"

definition first_open_order :: "database \<Rightarrow> int \<Rightarrow> Order option" where
  "first_open_order db tid =
     newest (filter (\<lambda>r. order_table r = tid \<and> \<not> order_printed r) (db_orders db))"

section \<open>The staff guard (decorators.py) and the POST guard\<close>

definition login_redirect :: outcome where
  "login_redirect = Returned (Redirect Staff_login []) [(WARNING, ''Please enter your staff code.'')]"

definition staff_required :: "(request \<Rightarrow> database \<Rightarrow> result) \<Rightarrow> request \<Rightarrow> database \<Rightarrow> result" where
  "staff_required view_func request db =
     (case session_staff request of
        Some sid \<Rightarrow> view_func request db
      | None \<Rightarrow> (login_redirect, db))"

definition require_POST :: "(request \<Rightarrow> database \<Rightarrow> result) \<Rightarrow> request \<Rightarrow> database \<Rightarrow> result" where
  "require_POST view_func request db =
     (if req_method request = POST then view_func request db
      else (Returned HttpResponseNotAllowed [], db))"

section \<open>StartOrderForm (forms.py)\<close>

text \<open>
  The substitution \<^verbatim>\<open>re_decimal.sub("", text)\<close> of the form framework's integer field,
  with the pattern \<^verbatim>\<open>\.0*\s*$\<close>: a trailing point followed by zeros and blanks is cut.
\<close>

definition re_decimal_sub :: "string \<Rightarrow> string" where
  "re_decimal_sub s =
     (case dropWhile (\<lambda>c. c = CHR ''0'') (dropWhile is_space_char (rev s)) of
        [] \<Rightarrow> s
      | c # t \<Rightarrow> if c = CHR ''.'' then rev t else s)"

text \<open>
  \<^verbatim>\<open>forms.IntegerField(min_value=1, required=False)\<close> on the submitted text:
  \<open>Inr None\<close> for an empty field, \<open>Inl ()\<close> for a field error.
\<close>

definition IntegerField_clean :: "string option \<Rightarrow> unit + int option" where
  "IntegerField_clean raw =
     (case raw of
        None \<Rightarrow> Inr None
      | Some s \<Rightarrow>
          if s = [] then Inr None
          else (case py_int (re_decimal_sub s) of
                  None \<Rightarrow> Inl ()
                | Some v \<Rightarrow> if v < 1 then Inl () else Inr (Some v)))"

text \<open>\<^verbatim>\<open>StartOrderForm.clean\<close>: \<open>False\<close> where it raises \<^verbatim>\<open>ValidationError\<close>.\<close>

definition StartOrderForm_clean :: "int option \<Rightarrow> int option \<Rightarrow> int option \<Rightarrow> bool" where
  "StartOrderForm_clean start stop count =
     (if (start \<noteq> None) \<noteq> (stop \<noteq> None) then False
      else (case (start, stop) of
              (Some a, Some b) \<Rightarrow>
                if a > b then False
                else (case count of None \<Rightarrow> True | Some c \<Rightarrow> if b > c then False else True)
            | _ \<Rightarrow> True))"

text \<open>
  \<^verbatim>\<open>StartOrderForm(request.POST)\<close>: the cleaned
  \<open>(seat_count, my_seat_start, my_seat_end)\<close> when \<^verbatim>\<open>is_valid()\<close>, \<open>None\<close> otherwise.
\<close>

definition StartOrderForm :: "(string \<times> string) list \<Rightarrow> (int option \<times> int option \<times> int option) option" where
  "StartOrderForm post =
     (case (IntegerField_clean (querydict_get post ''seat_count''),
            IntegerField_clean (querydict_get post ''my_seat_start''),
            IntegerField_clean (querydict_get post ''my_seat_end'')) of
        (Inr count, Inr start, Inr stop) \<Rightarrow>
          if StartOrderForm_clean start stop count then Some (count, start, stop) else None
      | _ \<Rightarrow> None)"

section \<open>Order lifecycle (views.py)\<close>

text \<open>
  \<^verbatim>\<open>[Seat(order=order, label=str(i), assigned_to=a) for i in range(lo, hi + 1)]\<close>
\<close>

definition seats_for_range :: "int \<Rightarrow> int option \<Rightarrow> int \<Rightarrow> int \<Rightarrow> unsaved_seat list" where
  "seats_for_range oid a lo hi = map (\<lambda>i. (oid, str i, a)) [lo..hi]"

text \<open>
  The range parameters of \<^verbatim>\<open>start_order\<close>: both present and integers gives the range,
  both present and one not an integer is the handled \<^verbatim>\<open>ValueError\<close> (\<open>Inl ()\<close>),
  anything else means no range.
\<close>

definition parse_range :: "string option \<Rightarrow> string option \<Rightarrow> unit + (int \<times> int) option" where
  "parse_range my_start my_end =
     (case (my_start, my_end) of
        (Some s, Some e) \<Rightarrow>
          (case (py_int s, py_int e) of
             (Some a, Some b) \<Rightarrow> Inr (Some (a, b))
           | _ \<Rightarrow> Inl ())
      | _ \<Rightarrow> Inr None)"

text \<open>\<^verbatim>\<open>int(request.POST.get("seat_count", 12))\<close>\<close>

definition post_seat_count :: "request \<Rightarrow> int option" where
  "post_seat_count request =
     (case querydict_get (req_POST request) ''seat_count'' of None \<Rightarrow> Some 12 | Some s \<Rightarrow> py_int s)"

text \<open>The body of the \<^verbatim>\<open>with transaction.atomic():\<close> block of \<^verbatim>\<open>start_order\<close>.\<close>

definition start_order_block ::
  "Table \<Rightarrow> StaffMember \<Rightarrow> nat \<Rightarrow> (int \<times> int) option \<Rightarrow> int \<Rightarrow> database
     \<Rightarrow> (error + (Order \<times> unsaved_seat list)) \<times> database" where
  "start_order_block table staff_member now seat_range seat_count db =
     (let (order, db1) = order_create table staff_member now db;
          seats_to_create =
            (case seat_range of
               Some (a, b) \<Rightarrow> seats_for_range (order_id order) None a b
             | None \<Rightarrow> seats_for_range (order_id order) None 1 seat_count)
      in case bulk_create seats_to_create db1 of
           Inl e \<Rightarrow> (Inl e, db1)
         | Inr db2 \<Rightarrow> (Inr (order, seats_to_create), db2))"

definition start_order_body :: "nat \<Rightarrow> int \<Rightarrow> request \<Rightarrow> database \<Rightarrow> result" where
  "start_order_body now tid request db =
     (case get_object_or_404 table_id (db_tables db) tid of
        Inl e \<Rightarrow> (Raised e, db)
      | Inr table \<Rightarrow>
          (case session_staff request of
             None \<Rightarrow>
               (Returned (Redirect Staff_login [])
                  [(ERROR, ''Staff session lost '' @ en_dash @ '' please log in again.'')], db)
           | Some sid \<Rightarrow>
               (case objects_get staff_id (db_staff_members db) sid of
                  Inl e \<Rightarrow> (Raised e, db)
                | Inr staff_member \<Rightarrow>
                    (case post_seat_count request of
                       None \<Rightarrow> (Raised ValueError, db)
                     | Some seat_count \<Rightarrow>
                         (case parse_range (querydict_get (req_POST request) ''my_start'')
                                 (querydict_get (req_POST request) ''my_end'') of
                            Inl _ \<Rightarrow>
                              (Returned (Redirect (Table_detail (table_id table)) [])
                                 [(ERROR, ''Invalid seat range.'')], db)
                          | Inr seat_range \<Rightarrow>
                              (case atomic (start_order_block table staff_member now seat_range seat_count) db of
                                 (Inl e, db') \<Rightarrow> (Raised e, db')
                               | (Inr (order, seats_to_create), db') \<Rightarrow>
                                   (case stafflog_create (staff_id staff_member)
                                           (''started order #'' @ str (order_id order)
                                            @ '' on table '' @ str (table_number table)
                                            @ '' with '' @ str (int (length seats_to_create))
                                            @ '' seats'') db' of
                                      Inl e \<Rightarrow> (Raised e, db')
                                    | Inr db'' \<Rightarrow>
                                        (Returned (Redirect (Table_detail (table_id table)) [])
                                           [(SUCCESS, ''Order started on Table ''
                                               @ str (table_number table) @ '' with ''
                                               @ str (int (length seats_to_create)) @ '' seats.'')],
                                         db''))))))))"

text \<open>\<^verbatim>\<open>@staff_required def start_order(request, table_id)\<close>\<close>

definition start_order :: "nat \<Rightarrow> int \<Rightarrow> request \<Rightarrow> database \<Rightarrow> result" where
  "start_order now tid = staff_required (start_order_body now tid)"

text \<open>
  Modelled from the spec: the helper \<^verbatim>\<open>existing_numeric_labels\<close> that \<^verbatim>\<open>join_order\<close>
  calls is defined in no module of the application. The specification (section 4.2) says
  that \<^verbatim>\<open>join_order\<close> "computes currently occupied numeric seat labels" and that
  "non-numeric existing labels are ignored for collision purposes". It is taken here as
  the set of the numbers of the labels that \<^verbatim>\<open>isdigit()\<close> accepts and \<^verbatim>\<open>int()\<close> reads;
  a label with no number is left out.
\<close>

definition existing_numeric_labels :: "database \<Rightarrow> Order \<Rightarrow> int set" where
  "existing_numeric_labels db order =
     set (List.map_filter (\<lambda>l. if isdigit l then py_int l else None)
            (seat_labels db (order_id order)))"

text \<open>
  \<^verbatim>\<open>[s for s in seats_to_create if int(s.label) not in existing]\<close>, with the
  \<^verbatim>\<open>ValueError\<close> of \<^verbatim>\<open>int()\<close>.
\<close>

fun drop_existing :: "int set \<Rightarrow> unsaved_seat list \<Rightarrow> error + unsaved_seat list" where
  "drop_existing existing [] = Inr []"
| "drop_existing existing (s # rest) =
     (case py_int (fst (snd s)) of
        None \<Rightarrow> Inl ValueError
      | Some n \<Rightarrow>
          (case drop_existing existing rest of
             Inl e \<Rightarrow> Inl e
           | Inr kept \<Rightarrow> Inr (if n \<notin> existing then s # kept else kept)))"

text \<open>The staff member a \<^verbatim>\<open>join_order\<close> assigns: none without a session entry.\<close>

definition session_staff_member :: "request \<Rightarrow> database \<Rightarrow> error + int option" where
  "session_staff_member request db =
     (case session_staff request of
        None \<Rightarrow> Inr None
      | Some sid \<Rightarrow>
          (case objects_get staff_id (db_staff_members db) sid of
             Inl e \<Rightarrow> Inl e
           | Inr m \<Rightarrow> Inr (Some (staff_id m))))"

definition range_query :: "int \<Rightarrow> int \<Rightarrow> string" where
  "range_query a b = ''?my_start='' @ str a @ ''&my_end='' @ str b"

definition overlap_message :: "int set \<Rightarrow> string" where
  "overlap_message overlap =
     ''The seats '' @ join '', '' (map str (sorted_list_of_set overlap))
     @ '' already exist in this order. Pick a different range.''"

definition join_order_body :: "int \<Rightarrow> request \<Rightarrow> database \<Rightarrow> result" where
  "join_order_body tid request db =
     (case get_object_or_404 table_id (db_tables db) tid of
        Inl e \<Rightarrow> (Raised e, db)
      | Inr table \<Rightarrow>
          (case first_open_order db (table_id table) of
             None \<Rightarrow>
               (Returned (Redirect (Start_order (table_id table)) [])
                  [(INFO, ''No order exists yet '' @ en_dash @ '' please start one first.'')], db)
           | Some order \<Rightarrow>
               (case StartOrderForm (req_POST request) of
                  None \<Rightarrow>
                    (Returned (Redirect (Table_detail (table_id table)) [])
                       [(ERROR, ''Invalid range '' @ en_dash @ '' please correct the values.'')], db)
                | Some (count, my_start, my_end) \<Rightarrow>
                    (let seat_count = (case count of None \<Rightarrow> 12 | Some c \<Rightarrow> if c = 0 then 12 else c)
                     in case session_staff_member request db of
                          Inl e \<Rightarrow> (Raised e, db)
                        | Inr staff_member \<Rightarrow>
                            (case (my_start, my_end) of
                               (Some a, Some b) \<Rightarrow>
                                 (let occupied = existing_numeric_labels db order;
                                      requested = {a..b};
                                      overlap = occupied \<inter> requested
                                  in if overlap \<noteq> {}
                                     then (Returned (Redirect (Table_detail (table_id table)) (range_query a b))
                                             [(ERROR, overlap_message overlap)], db)
                                     else (case bulk_create
                                                  (seats_for_range (order_id order) staff_member a b) db of
                                             Inl e \<Rightarrow> (Raised e, db)
                                           | Inr db' \<Rightarrow>
                                               (Returned (Redirect (Table_detail (table_id table)) (range_query a b))
                                                  [(SUCCESS,
                                                    str (int (length (seats_for_range (order_id order) staff_member a b)))
                                                    @ '' seats added (#'' @ str a @ ''-'' @ str b @ '').'')],
                                                db')))
                             | _ \<Rightarrow>
                                 (let existing = existing_numeric_labels db order
                                  in case drop_existing existing
                                            (seats_for_range (order_id order) staff_member 1 seat_count) of
                                       Inl e \<Rightarrow> (Raised e, db)
                                     | Inr seats_to_create \<Rightarrow>
                                         (case bulk_create seats_to_create db of
                                            Inl e \<Rightarrow> (Raised e, db)
                                          | Inr db' \<Rightarrow>
                                              (Returned (Redirect (Table_detail (table_id table)) [])
                                                 [(SUCCESS, str (int (length seats_to_create))
                                                     @ '' seats added (no explicit range).'')],
                                               db'))))))))"

text \<open>\<^verbatim>\<open>@require_POST def join_order(request, table_id)\<close>\<close>

definition join_order :: "int \<Rightarrow> request \<Rightarrow> database \<Rightarrow> result" where
  "join_order tid = require_POST (join_order_body tid)"

definition close_order_body :: "int \<Rightarrow> request \<Rightarrow> database \<Rightarrow> result" where
  "close_order_body oid request db =
     (case get_object_or_404 order_id (db_orders db) oid of
        Inl e \<Rightarrow> (Raised e, db)
      | Inr order \<Rightarrow>
          (case objects_get table_id (db_tables db) (order_table order) of
             Inl e \<Rightarrow> (Raised e, db)
           | Inr table \<Rightarrow>
               (case (case session_staff request of
                        None \<Rightarrow> Inr db
                      | Some sid \<Rightarrow>
                          stafflog_create sid
                            (''closed order #'' @ str (order_id order) @ '' on table ''
                             @ str (table_number table)) db) of
                  Inl e \<Rightarrow> (Raised e, db)
                | Inr db1 \<Rightarrow>
                    (Returned (Redirect (Room_tables (table_room table)) []) [(INFO, ''Order closed.'')],
                     order_delete (order_id order) db1))))"

text \<open>\<^verbatim>\<open>@require_POST def close_order(request, order_id)\<close>\<close>

definition close_order :: "int \<Rightarrow> request \<Rightarrow> database \<Rightarrow> result" where
  "close_order oid = require_POST (close_order_body oid)"

section \<open>Seats (views.py)\<close>

text \<open>\<^verbatim>\<open>max(xs, default=d)\<close>\<close>

definition max_default :: "int list \<Rightarrow> int \<Rightarrow> int" where
  "max_default xs d = (case xs of [] \<Rightarrow> d | x # r \<Rightarrow> foldl max x r)"

text \<open>
  \<^verbatim>\<open>[int(lbl) for lbl in existing_labels if lbl.isdigit()]\<close>, with the \<^verbatim>\<open>ValueError\<close>
  of \<^verbatim>\<open>int()\<close> on a label that \<^verbatim>\<open>isdigit()\<close> accepts and \<^verbatim>\<open>int()\<close> does not read.
\<close>

fun int_labels :: "string list \<Rightarrow> error + int list" where
  "int_labels [] = Inr []"
| "int_labels (lbl # rest) =
     (if isdigit lbl
      then (case py_int lbl of
              None \<Rightarrow> Inl ValueError
            | Some n \<Rightarrow>
                (case int_labels rest of
                   Inl e \<Rightarrow> Inl e
                 | Inr ns \<Rightarrow> Inr (n # ns)))
      else int_labels rest)"

text \<open>The label \<^verbatim>\<open>add_seat\<close> gives the new seat of an order.\<close>

definition auto_label :: "database \<Rightarrow> Order \<Rightarrow> error + string" where
  "auto_label db order =
     (let existing_labels = seat_labels db (order_id order)
      in case int_labels existing_labels of
           Inl e \<Rightarrow> Inl e
         | Inr numeric_labels \<Rightarrow>
             (let next_number = max_default numeric_labels 0 + 1
              in Inr (str next_number)))"

definition add_seat_body :: "int \<Rightarrow> request \<Rightarrow> database \<Rightarrow> result" where
  "add_seat_body oid request db =
     (case get_object_or_404 order_id (db_orders db) oid of
        Inl e \<Rightarrow> (Raised e, db)
      | Inr order \<Rightarrow>
          (case auto_label db order of
             Inl e \<Rightarrow> (Raised e, db)
           | Inr label \<Rightarrow>
               (case seat_create (order_id order) label db of
                  Inl e \<Rightarrow> (Raised e, db)
                | Inr (new_seat, db') \<Rightarrow>
                    (case objects_get table_id (db_tables db') (order_table order) of
                       Inl e \<Rightarrow> (Raised e, db')
                     | Inr table \<Rightarrow>
                         (Returned (Redirect (Table_detail (table_id table))
                                      (''?new_seat='' @ str (seat_id new_seat)))
                            [(SUCCESS, ''Seat #'' @ label @ '' added.'')], db')))))"

text \<open>\<^verbatim>\<open>@require_POST def add_seat(request, order_id)\<close>\<close>

definition add_seat :: "int \<Rightarrow> request \<Rightarrow> database \<Rightarrow> result" where
  "add_seat oid = require_POST (add_seat_body oid)"

text \<open>The navigation \<^verbatim>\<open>seat.order.table\<close>.\<close>

definition table_of_seat :: "database \<Rightarrow> Seat \<Rightarrow> error + Table" where
  "table_of_seat db seat =
     (case objects_get order_id (db_orders db) (seat_order seat) of
        Inl e \<Rightarrow> Inl e
      | Inr order \<Rightarrow> objects_get table_id (db_tables db) (order_table order))"

definition dquote :: string where
  "dquote = [CHR 0x22]"

definition remove_seat_body :: "int \<Rightarrow> request \<Rightarrow> database \<Rightarrow> result" where
  "remove_seat_body sid request db =
     (case get_object_or_404 seat_id (db_seats db) sid of
        Inl e \<Rightarrow> (Raised e, db)
      | Inr seat \<Rightarrow>
          (case table_of_seat db seat of
             Inl e \<Rightarrow> (Raised e, db)
           | Inr table \<Rightarrow>
               (Returned (Redirect (Table_detail (table_id table)) [])
                  [(INFO, ''Seat '' @ dquote @ seat_label seat @ dquote @ '' removed.'')],
                seat_delete (seat_id seat) db)))"

text \<open>\<^verbatim>\<open>@require_POST def remove_seat(request, seat_id)\<close>\<close>

definition remove_seat :: "int \<Rightarrow> request \<Rightarrow> database \<Rightarrow> result" where
  "remove_seat sid = require_POST (remove_seat_body sid)"

section \<open>Selections (views.py)\<close>

definition newline :: string where
  "newline = [CHR 0x0A]"

text \<open>
  \<^verbatim>\<open>SeatSelection.objects.get_or_create(seat=seat, item=item, defaults={"notes": notes})\<close>:
  the one matching row, a new row when none matches, \<^verbatim>\<open>MultipleObjectsReturned\<close> when
  several do. The notes column is \<^verbatim>\<open>CharField(max_length=200)\<close>.
\<close>

definition get_or_create ::
  "Seat \<Rightarrow> MenuItem \<Rightarrow> string \<Rightarrow> database \<Rightarrow> error + (SeatSelection \<times> bool \<times> database)" where
  "get_or_create seat item notes db =
     (case filter (\<lambda>x. sel_seat x = seat_id seat \<and> sel_item x = item_id item) (db_selections db) of
        [] \<Rightarrow>
          if \<not> varchar_ok db 200 notes then Inl DataError
          else (let selection = \<lparr>sel_id = next_selection_id db, sel_seat = seat_id seat,
                                  sel_item = item_id item, sel_notes = notes,
                                  sel_modifiers = {}, sel_temperatures = {}\<rparr>
                in Inr (selection, True,
                        db\<lparr>db_selections := db_selections db @ [selection],
                           next_selection_id := next_selection_id db + 1\<rparr>))
      | [x] \<Rightarrow> Inr (x, False, db)
      | _ \<Rightarrow> Inl MultipleObjectsReturned)"

text \<open>\<^verbatim>\<open>selection.save()\<close>: the stored row of that primary key takes the fields of the object.\<close>

definition selection_save :: "SeatSelection \<Rightarrow> database \<Rightarrow> error + database" where
  "selection_save selection db =
     (if \<not> varchar_ok db 200 (sel_notes selection) then Inl DataError
      else Inr (db\<lparr>db_selections :=
                     map (\<lambda>x. if sel_id x = sel_id selection
                               then x\<lparr>sel_seat := sel_seat selection, sel_item := sel_item selection,
                                      sel_notes := sel_notes selection\<rparr>
                               else x) (db_selections db)\<rparr>))"

text \<open>\<^verbatim>\<open>selection.modifiers.add(*mods)\<close> and \<^verbatim>\<open>selection.temperatures.add(*temps)\<close>\<close>

definition modifiers_add :: "int \<Rightarrow> int set \<Rightarrow> database \<Rightarrow> database" where
  "modifiers_add k mods db =
     db\<lparr>db_selections :=
          map (\<lambda>x. if sel_id x = k then x\<lparr>sel_modifiers := sel_modifiers x \<union> mods\<rparr> else x)
            (db_selections db)\<rparr>"

definition temperatures_add :: "int \<Rightarrow> int set \<Rightarrow> database \<Rightarrow> database" where
  "temperatures_add k temps db =
     db\<lparr>db_selections :=
          map (\<lambda>x. if sel_id x = k then x\<lparr>sel_temperatures := sel_temperatures x \<union> temps\<rparr> else x)
            (db_selections db)\<rparr>"

text \<open>The keys of \<^verbatim>\<open>filter(pk__in=ids)\<close>: every text must be an integer.\<close>

fun parse_ids :: "string list \<Rightarrow> int list option" where
  "parse_ids [] = Some []"
| "parse_ids (s # r) =
     (case py_int s of
        None \<Rightarrow> None
      | Some k \<Rightarrow> (case parse_ids r of None \<Rightarrow> None | Some ks \<Rightarrow> Some (k # ks)))"

text \<open>\<^verbatim>\<open>Modifier.objects.filter(pk__in=ids)\<close>, on the keys of either catalogue.\<close>

definition filter_pk_in :: "int set \<Rightarrow> string list \<Rightarrow> error + int set" where
  "filter_pk_in catalogue ids =
     (case parse_ids ids of None \<Rightarrow> Inl ValueError | Some ks \<Rightarrow> Inr (catalogue \<inter> set ks))"

definition add_selection_body :: "request \<Rightarrow> database \<Rightarrow> result" where
  "add_selection_body request db =
     (let notes = strip (case querydict_get (req_POST request) ''notes'' of None \<Rightarrow> [] | Some s \<Rightarrow> s);
          modifier_ids = querydict_getlist (req_POST request) ''modifier_ids'';
          temperature_ids = querydict_getlist (req_POST request) ''temperature_ids''
      in case get_object_or_404_raw seat_id (db_seats db) (querydict_get (req_POST request) ''seat_id'') of
           Inl e \<Rightarrow> (Raised e, db)
         | Inr seat \<Rightarrow>
        (case get_object_or_404_raw item_id (db_menu_items db) (querydict_get (req_POST request) ''item_id'') of
           Inl e \<Rightarrow> (Raised e, db)
         | Inr item \<Rightarrow>
        (case get_or_create seat item notes db of
           Inl e \<Rightarrow> (Raised e, db)
         | Inr (selection, created, db1) \<Rightarrow>
        (case (if \<not> created \<and> notes \<noteq> []
               then selection_save
                      (selection\<lparr>sel_notes := strip (sel_notes selection @ newline @ notes)\<rparr>) db1
               else Inr db1) of
           Inl e \<Rightarrow> (Raised e, db1)
         | Inr db2 \<Rightarrow>
        (case (if modifier_ids \<noteq> []
               then (case filter_pk_in (db_modifiers db2) modifier_ids of
                       Inl e \<Rightarrow> Inl e
                     | Inr mods \<Rightarrow> Inr (modifiers_add (sel_id selection) mods db2))
               else Inr db2) of
           Inl e \<Rightarrow> (Raised e, db2)
         | Inr db3 \<Rightarrow>
        (case (if temperature_ids \<noteq> []
               then (case filter_pk_in (db_temperatures db3) temperature_ids of
                       Inl e \<Rightarrow> Inl e
                     | Inr temps \<Rightarrow> Inr (temperatures_add (sel_id selection) temps db3))
               else Inr db3) of
           Inl e \<Rightarrow> (Raised e, db3)
         | Inr db4 \<Rightarrow>
        (case table_of_seat db4 seat of
           Inl e \<Rightarrow> (Raised e, db4)
         | Inr table \<Rightarrow>
             (Returned (Redirect (Table_detail (table_id table)) (''?active_seat='' @ str (seat_id seat)))
                [(SUCCESS, ''Updated selection for '' @ dquote @ item_name item @ dquote
                    @ '' on seat '' @ dquote @ seat_label seat @ dquote @ ''.'')],
              db4))))))))"

text \<open>\<^verbatim>\<open>@require_POST def add_selection(request)\<close>\<close>

definition add_selection :: "request \<Rightarrow> database \<Rightarrow> result" where
  "add_selection = require_POST add_selection_body"

definition remove_selection_body :: "int \<Rightarrow> request \<Rightarrow> database \<Rightarrow> result" where
  "remove_selection_body k request db =
     (case get_object_or_404 sel_id (db_selections db) k of
        Inl e \<Rightarrow> (Raised e, db)
      | Inr selection \<Rightarrow>
          (case objects_get seat_id (db_seats db) (sel_seat selection) of
             Inl e \<Rightarrow> (Raised e, db)
           | Inr seat \<Rightarrow>
               (case table_of_seat db seat of
                  Inl e \<Rightarrow> (Raised e, db)
                | Inr table \<Rightarrow>
                    (Returned (Redirect (Table_detail (table_id table)) [])
                       [(INFO, ''Selection removed.'')],
                     selection_delete (sel_id selection) db))))"

text \<open>\<^verbatim>\<open>@require_POST def remove_selection(request, selection_id)\<close>\<close>

definition remove_selection :: "int \<Rightarrow> request \<Rightarrow> database \<Rightarrow> result" where
  "remove_selection k = require_POST (remove_selection_body k)"

text \<open>\<^verbatim>\<open>not value\<close> for a request parameter: absent or empty.\<close>

definition falsy :: "string option \<Rightarrow> bool" where
  "falsy v = (case v of None \<Rightarrow> True | Some s \<Rightarrow> s = [])"

text \<open>The audit entry of \<^verbatim>\<open>move_selection\<close>, written only with a staff id in the session.\<close>

definition move_selection_log :: "request \<Rightarrow> SeatSelection \<Rightarrow> Seat \<Rightarrow> database \<Rightarrow> error + database" where
  "move_selection_log request selection target_seat db =
     (case session_staff request of
        None \<Rightarrow> Inr db
      | Some sid \<Rightarrow>
          (case objects_get item_id (db_menu_items db) (sel_item selection) of
             Inl e \<Rightarrow> Inl e
           | Inr item \<Rightarrow>
               (case table_of_seat db target_seat of
                  Inl e \<Rightarrow> Inl e
                | Inr table \<Rightarrow>
                    stafflog_create sid
                      (''moved selection #'' @ str (sel_id selection) @ '' (item '' @ item_name item
                       @ '') to seat #'' @ seat_label target_seat @ '' on table ''
                       @ str (table_number table)) db)))"

definition move_selection_body :: "request \<Rightarrow> database \<Rightarrow> result" where
  "move_selection_body request db =
     (let sel_id_raw = querydict_get (req_POST request) ''selection_id'';
          target_seat_id = querydict_get (req_POST request) ''target_seat_id''
      in if falsy sel_id_raw \<or> falsy target_seat_id
         then (Returned (JsonResponse 400
                  [(''status'', ''error''), (''message'', ''Missing selection_id or target_seat_id'')]) [],
               db)
         else
        (case get_object_or_404_raw sel_id (db_selections db) sel_id_raw of
           Inl e \<Rightarrow> (Raised e, db)
         | Inr selection \<Rightarrow>
        (case get_object_or_404_raw seat_id (db_seats db) target_seat_id of
           Inl e \<Rightarrow> (Raised e, db)
         | Inr target_seat \<Rightarrow>
        (case selection_save (selection\<lparr>sel_seat := seat_id target_seat\<rparr>) db of
           Inl e \<Rightarrow> (Raised e, db)
         | Inr db1 \<Rightarrow>
        (case move_selection_log request selection target_seat db1 of
           Inl e \<Rightarrow> (Raised e, db1)
         | Inr db2 \<Rightarrow> (Returned (JsonResponse 200 [(''status'', ''ok'')]) [], db2))))))"

text \<open>\<^verbatim>\<open>@require_POST def move_selection(request)\<close>\<close>

definition move_selection :: "request \<Rightarrow> database \<Rightarrow> result" where
  "move_selection = require_POST move_selection_body"

section \<open>The seats shown for a table (\<^verbatim>\<open>_build_table_context\<close>)\<close>













section \<open>Sample data\<close>

definition table7 :: Table where
  "table7 = \<lparr>table_id = 1, table_number = 7, table_room = 2, table_party = None\<rparr>"

definition ann :: StaffMember where
  "ann = \<lparr>staff_id = 1, staff_name = ''Ann''\<rparr>"

definition soup :: MenuItem where
  "soup = \<lparr>item_id = 1, item_name = ''Soup''\<rparr>"

definition empty_db :: database where
  "empty_db =
     \<lparr>db_tables = [table7], db_staff_members = [ann], db_menu_items = [soup],
      db_modifiers = {1, 2, 3}, db_temperatures = {1, 2},
      db_orders = [], db_seats = [], db_selections = [], db_staff_logs = [],
      next_order_id = 1, next_seat_id = 1, next_selection_id = 1,
      enforce_max_length = True\<rparr>"

definition order1 :: Order where
  "order1 = \<lparr>order_id = 1, order_table = 1, order_party = None,
              order_opened_by_staff = Some 1, order_opened_at = 100, order_printed = False\<rparr>"

definition seat_row :: "int \<Rightarrow> string \<Rightarrow> Seat" where
  "seat_row i l = \<lparr>seat_id = i, seat_order = 1, seat_label = l, seat_assigned_to = None\<rparr>"

text \<open>An open order on table 7 with the seats "1" to "4".\<close>

definition db_1234 :: database where
  "db_1234 =
     empty_db\<lparr>db_orders := [order1],
              db_seats := [seat_row 1 ''1'', seat_row 2 ''2'', seat_row 3 ''3'', seat_row 4 ''4''],
              next_order_id := 2, next_seat_id := 5\<rparr>"

text \<open>An open order on table 7 with the seats "1", "3", "5" and "A".\<close>

definition db_135A :: database where
  "db_135A =
     empty_db\<lparr>db_orders := [order1],
              db_seats := [seat_row 1 ''1'', seat_row 2 ''3'', seat_row 3 ''5'', seat_row 4 ''A''],
              next_order_id := 2, next_seat_id := 5\<rparr>"

text \<open>
  An open order on table 7 with the seats "1" and superscript two (U+00B2), a label that
  \<^verbatim>\<open>isdigit()\<close> accepts and \<^verbatim>\<open>int()\<close> does not read.
\<close>

definition db_sup2 :: database where
  "db_sup2 =
     empty_db\<lparr>db_orders := [order1],
              db_seats := [seat_row 1 ''1'', seat_row 2 [CHR 0xB2]],
              next_order_id := 2, next_seat_id := 3\<rparr>"

text \<open>An open order on table 7 with the one seat "9999999999".\<close>

definition db_ten_nines :: database where
  "db_ten_nines =
     empty_db\<lparr>db_orders := [order1],
              db_seats := [seat_row 1 ''9999999999''],
              next_order_id := 2, next_seat_id := 2\<rparr>"

text \<open>
  The order with the seats "1" to "4" and two selections of the soup: one on seat "1" with
  the note "a", one on seat "2" without a note.
\<close>

definition sel_a :: SeatSelection where
  "sel_a = \<lparr>sel_id = 1, sel_seat = 1, sel_item = 1, sel_notes = ''a'',
             sel_modifiers = {1}, sel_temperatures = {2}\<rparr>"

definition sel_b :: SeatSelection where
  "sel_b = \<lparr>sel_id = 2, sel_seat = 2, sel_item = 1, sel_notes = [],
             sel_modifiers = {}, sel_temperatures = {}\<rparr>"

definition db_sel :: database where
  "db_sel = db_1234\<lparr>db_selections := [sel_a, sel_b], next_selection_id := 3\<rparr>"


definition post_request :: "(string \<times> string) list \<Rightarrow> int option \<Rightarrow> request" where
  "post_request form_data sid =
     \<lparr>req_method = POST, req_POST = form_data, req_GET = [], session_staff_id = sid\<rparr>"

definition get_request :: "(string \<times> string) list \<Rightarrow> request" where
  "get_request params =
     \<lparr>req_method = GET, req_POST = [], req_GET = params, session_staff_id = None\<rparr>"

section \<open>The uniqueness constraint on seats\<close>

text \<open>\<^verbatim>\<open>unique_together = ("order", "label")\<close> of \<^verbatim>\<open>Seat.Meta\<close>, as a property of the state.\<close>

definition unique_together :: "database \<Rightarrow> bool" where
  "unique_together db = distinct (map (\<lambda>s. (seat_order s, seat_label s)) (db_seats db))"

section \<open>Facts about the text primitives\<close>

lemma digit_char_is_decimal: "d < 10 \<Longrightarrow> is_decimal_char (digit_char d)"
  by (simp add: is_decimal_char_def digit_char_def)

lemma decimal_is_digit: "is_decimal_char c \<Longrightarrow> is_digit_char c"
  by (simp add: is_digit_char_def)

lemma digit_not_int_space: "is_digit_char c \<Longrightarrow> \<not> is_int_space_char c"
  by (auto simp: is_digit_char_def is_decimal_char_def is_int_space_char_def)

lemma digit_not_sign: "is_digit_char c \<Longrightarrow> c \<noteq> CHR ''-'' \<and> c \<noteq> CHR ''+'' \<and> c \<noteq> CHR ''_''"
  by (auto simp: is_digit_char_def is_decimal_char_def)

lemma digit_val_digit_char: "d < 10 \<Longrightarrow> digit_val (digit_char d) = d"
  by (simp add: digit_val_def digit_char_def)

lemma digit_char_eval:
  "digit_char 0 = CHR ''0''" "digit_char 1 = CHR ''1''" "digit_char 2 = CHR ''2''"
  "digit_char 3 = CHR ''3''" "digit_char 4 = CHR ''4''" "digit_char 5 = CHR ''5''"
  "digit_char 6 = CHR ''6''" "digit_char 7 = CHR ''7''" "digit_char 8 = CHR ''8''"
  "digit_char 9 = CHR ''9''" "digit_char (Suc 0) = CHR ''1''"
  by code_simp+

lemma str_nat_lt10: "n < 10 \<Longrightarrow> str_nat n = [digit_char n]"
  by (subst str_nat.simps) simp

lemma str_nat_ge10: "10 \<le> n \<Longrightarrow> str_nat n = str_nat (n div 10) @ [digit_char (n mod 10)]"
  by (subst str_nat.simps) simp

text \<open>Rewrite rules that evaluate the text primitives on literals.\<close>

lemmas str_eval = str_def str_nat_lt10 str_nat_ge10 digit_char_eval

lemmas text_eval =
  isdigit_def is_digit_char_def is_decimal_char_def int_of_digits_def nat_of_digits_def
  digit_val_def strip_def is_space_char_def int_strip_def is_int_space_char_def py_int_def
  parse_digits_def

lemma str_nat_nonempty: "str_nat n \<noteq> []"
  by (subst str_nat.simps) simp

lemma str_nat_all_decimal: "list_all is_decimal_char (str_nat n)"
proof (induction n rule: str_nat.induct)
  case (1 n)
  show ?case
  proof (cases "n < 10")
    case True
    then show ?thesis by (subst str_nat.simps) (simp add: digit_char_is_decimal)
  next
    case False
    then have "list_all is_decimal_char (str_nat (n div 10))" using 1 by simp
    with False show ?thesis by (subst str_nat.simps) (simp add: digit_char_is_decimal)
  qed
qed

lemma isdigit_decimal: "s \<noteq> [] \<Longrightarrow> list_all is_decimal_char s \<Longrightarrow> isdigit s"
  by (auto simp: isdigit_def list_all_iff decimal_is_digit)

lemma isdigit_str_nat: "isdigit (str_nat n)"
  by (simp add: isdigit_decimal str_nat_nonempty str_nat_all_decimal)

lemma nat_of_digits_snoc: "nat_of_digits (s @ [c]) = 10 * nat_of_digits s + digit_val c"
  by (simp add: nat_of_digits_def)

lemma nat_of_digits_str_nat: "nat_of_digits (str_nat n) = n"
proof (induction n rule: str_nat.induct)
  case (1 n)
  show ?case
  proof (cases "n < 10")
    case True
    then show ?thesis
      by (subst str_nat.simps) (simp add: nat_of_digits_def digit_val_digit_char)
  next
    case False
    then have "nat_of_digits (str_nat (n div 10)) = n div 10" using 1 by simp
    with False show ?thesis
      by (subst str_nat.simps) (simp add: nat_of_digits_snoc digit_val_digit_char)
  qed
qed

lemma isdigit_str: "0 \<le> i \<Longrightarrow> isdigit (str i)"
  by (simp add: str_def isdigit_str_nat)

lemma int_of_digits_str: "0 \<le> i \<Longrightarrow> int_of_digits (str i) = i"
  by (simp add: str_def int_of_digits_def nat_of_digits_str_nat)

lemma not_isdigit_str_neg: "i < 0 \<Longrightarrow> \<not> isdigit (str i)"
  by (simp add: str_def isdigit_def is_digit_char_def is_decimal_char_def)

lemma str_inj: "str i = str j \<Longrightarrow> i = j"
proof -
  assume eq: "str i = str j"
  consider "0 \<le> i" "0 \<le> j" | "i < 0" "j < 0" | "0 \<le> i" "j < 0" | "i < 0" "0 \<le> j"
    by linarith
  then show "i = j"
  proof cases
    case 1
    then show ?thesis using eq int_of_digits_str by metis
  next
    case 2
    then have "str_nat (nat (- i)) = str_nat (nat (- j))" using eq by (simp add: str_def)
    then have "nat (- i) = nat (- j)" using nat_of_digits_str_nat by metis
    with 2 show ?thesis by simp
  next
    case 3
    then show ?thesis using eq isdigit_str not_isdigit_str_neg by metis
  next
    case 4
    then show ?thesis using eq isdigit_str not_isdigit_str_neg by metis
  qed
qed


text \<open>What \<^verbatim>\<open>int()\<close> reads.\<close>

lemma dropWhile_hd_id: "xs \<noteq> [] \<Longrightarrow> \<not> P (hd xs) \<Longrightarrow> dropWhile P xs = xs"
  by (cases xs) simp_all

lemma trim_id:
  assumes "xs \<noteq> []" and "\<not> P (hd xs)" and "\<not> P (last xs)"
  shows "rev (dropWhile P (rev (dropWhile P xs))) = xs"
proof -
  have 1: "dropWhile P xs = xs"
    using assms by (simp add: dropWhile_hd_id)
  have "hd (rev xs) = last xs" using assms(1) by (simp add: hd_rev)
  then have 2: "dropWhile P (rev xs) = rev xs"
    using assms by (simp add: dropWhile_hd_id)
  show ?thesis by (simp add: 1 2)
qed

lemma int_strip_isdigit: "isdigit s \<Longrightarrow> int_strip s = s"
  unfolding int_strip_def
  by (rule trim_id) (auto simp: isdigit_def list_all_iff digit_not_int_space)

lemma digits_body_ok_decimal:
  "s \<noteq> [] \<Longrightarrow> list_all is_decimal_char s \<Longrightarrow> digits_body_ok s"
proof (induction s rule: digits_body_ok.induct)
  case 1
  then show ?case by simp
next
  case (2 c)
  then show ?case by simp
next
  case (3 c d r)
  then have "d \<noteq> CHR ''_''" using digit_not_sign decimal_is_digit by auto
  with 3 show ?case by simp
qed

lemma digits_body_ok_chars:
  "digits_body_ok s \<Longrightarrow> list_all (\<lambda>c. is_decimal_char c \<or> c = CHR ''_'') s"
  by (induction s rule: digits_body_ok.induct) (auto split: if_splits)

lemma filter_underscore_decimal:
  "list_all is_decimal_char s \<Longrightarrow> filter (\<lambda>c. c \<noteq> CHR ''_'') s = s"
  using digit_not_sign decimal_is_digit by (auto simp: list_all_iff filter_id_conv)

lemma parse_digits_decimal:
  "s \<noteq> [] \<Longrightarrow> list_all is_decimal_char s \<Longrightarrow> parse_digits s = Some (int_of_digits s)"
  by (simp add: parse_digits_def digits_body_ok_decimal filter_underscore_decimal)

lemma py_int_unsigned:
  assumes "isdigit s"
  shows "py_int s = parse_digits s"
proof -
  obtain c r where s: "s = c # r" using assms by (cases s) (auto simp: isdigit_def)
  have "is_digit_char c" using assms s by (simp add: isdigit_def)
  then have c: "c \<noteq> CHR ''-''" "c \<noteq> CHR ''+''" using digit_not_sign by auto
  have st: "int_strip (c # r) = c # r" using int_strip_isdigit [OF assms] s by simp
  show ?thesis unfolding s py_int_def st using c by simp
qed

lemma py_int_decimal:
  assumes "s \<noteq> []" and "list_all is_decimal_char s"
  shows "py_int s = Some (int_of_digits s)"
  using assms by (simp add: py_int_unsigned isdigit_decimal parse_digits_decimal)

text \<open>A label that \<^verbatim>\<open>isdigit()\<close> accepts is read by \<^verbatim>\<open>int()\<close> only if all its digits are decimal.\<close>

lemma py_int_isdigit:
  assumes "isdigit s" and "py_int s = Some n"
  shows "list_all is_decimal_char s \<and> n = int_of_digits s"
proof -
  have ne: "s \<noteq> []" using assms(1) by (auto simp: isdigit_def)
  have "parse_digits s = Some n" using assms by (simp add: py_int_unsigned)
  then have "digits_body_ok s" by (simp add: parse_digits_def split: if_splits)
  then have "list_all (\<lambda>c. is_decimal_char c \<or> c = CHR ''_'') s" by (rule digits_body_ok_chars)
  then have dec: "list_all is_decimal_char s"
    using assms(1) digit_not_sign by (auto simp: isdigit_def list_all_iff)
  then show ?thesis using assms(2) py_int_decimal [OF ne dec] by simp
qed

lemma py_int_isdigit_nonneg: "isdigit s \<Longrightarrow> py_int s = Some n \<Longrightarrow> 0 \<le> n"
  using py_int_isdigit [of s n] by (simp add: int_of_digits_def)

lemma py_int_str: "py_int (str i) = Some i"
proof (cases "0 \<le> i")
  case True
  then have "py_int (str i) = Some (int_of_digits (str i))"
    by (simp add: py_int_decimal str_def str_nat_nonempty str_nat_all_decimal)
  then show ?thesis using True by (simp add: int_of_digits_str)
next
  case False
  let ?d = "str_nat (nat (- i))"
  have s: "str i = CHR ''-'' # ?d" using False by (simp add: str_def)
  have "last (str i) = last ?d" using s by (simp add: str_nat_nonempty)
  moreover have "is_digit_char (last ?d)"
    using isdigit_str_nat [of "nat (- i)"] last_in_set [of ?d]
    by (auto simp: isdigit_def list_all_iff)
  ultimately have "\<not> is_int_space_char (last (str i))" by (simp add: digit_not_int_space)
  moreover have "\<not> is_int_space_char (hd (str i))" using s by (simp add: is_int_space_char_def)
  ultimately have "int_strip (str i) = str i"
    unfolding int_strip_def using s by (intro trim_id) auto
  then have "py_int (str i) = map_option uminus (parse_digits ?d)"
    by (simp add: py_int_def s)
  also have "\<dots> = Some (- int_of_digits ?d)"
    by (simp add: parse_digits_decimal str_nat_nonempty str_nat_all_decimal)
  also have "\<dots> = Some i"
    using False by (simp add: int_of_digits_def nat_of_digits_str_nat)
  finally show ?thesis .
qed
section \<open>Evaluation rules for the sample data\<close>

lemmas db_eval =
  table7_def ann_def soup_def empty_db_def order1_def seat_row_def db_1234_def db_135A_def
  db_sup2_def db_ten_nines_def sel_a_def sel_b_def db_sel_def
  post_request_def get_request_def

lemmas store_eval =
  querydict_get_def querydict_getlist_def get_object_or_404_def objects_get_def
  first_open_order_def session_staff_def

section \<open>Facts about the storage operations\<close>

lemma get_object_or_404_pk:
  "get_object_or_404 pk rows k = Inr r \<Longrightarrow> pk r = k \<and> r \<in> set rows"
  by (auto simp: get_object_or_404_def find_Some_iff split: option.splits)

lemma objects_get_pk:
  "objects_get pk rows k = Inr r \<Longrightarrow> pk r = k \<and> r \<in> set rows"
  by (auto simp: objects_get_def find_Some_iff split: option.splits)

lemma foldl_max_ge: "(a::int) \<le> foldl max a r"
  by (induction r arbitrary: a) (auto intro: order_trans [OF max.cobounded1])

lemma foldl_max_mem: "y \<in> set r \<Longrightarrow> (y::int) \<le> foldl max a r"
proof (induction r arbitrary: a)
  case Nil
  then show ?case by simp
next
  case (Cons x r)
  show ?case
  proof (cases "y = x")
    case True
    have "x \<le> max a x" by simp
    also have "\<dots> \<le> foldl max (max a x) r" by (rule foldl_max_ge)
    finally show ?thesis using True by simp
  next
    case False
    then have "y \<in> set r" using Cons.prems by simp
    then show ?thesis using Cons.IH by simp
  qed
qed

lemma max_default_mem: "y \<in> set xs \<Longrightarrow> y \<le> max_default xs d"
  by (cases xs) (auto simp: max_default_def foldl_max_ge foldl_max_mem)

lemma max_default_nonneg: "\<forall>x \<in> set xs. 0 \<le> x \<Longrightarrow> 0 \<le> max_default xs 0"
proof (cases xs)
  case Nil
  then show ?thesis by (simp add: max_default_def)
next
  case (Cons x r)
  assume "\<forall>x \<in> set xs. 0 \<le> x"
  then have "0 \<le> x" using Cons by simp
  also have "x \<le> foldl max x r" by (rule foldl_max_ge)
  finally show ?thesis using Cons by (simp add: max_default_def)
qed

text \<open>The numbers \<^verbatim>\<open>add_seat\<close> reads off the labels, when it reads them all.\<close>

lemma int_labels_Inr:
  "int_labels ls = Inr ns \<Longrightarrow>
     ns = map int_of_digits (filter isdigit ls)
     \<and> (\<forall>l \<in> set ls. isdigit l \<longrightarrow> py_int l = Some (int_of_digits l))"
proof (induction ls arbitrary: ns)
  case Nil
  then show ?case by simp
next
  case (Cons l ls)
  show ?case
  proof (cases "isdigit l")
    case False
    then show ?thesis using Cons by simp
  next
    case True
    then obtain n ms where n: "py_int l = Some n" and ms: "int_labels ls = Inr ms"
      and ns: "ns = n # ms"
      using Cons.prems by (auto split: option.splits sum.splits)
    have "n = int_of_digits l" using py_int_isdigit [OF True n] by simp
    then show ?thesis using Cons.IH [OF ms] True n ns by simp
  qed
qed

lemma int_labels_Inl: "int_labels ls = Inl e \<Longrightarrow> e = ValueError"
  by (induction ls) (auto split: if_splits option.splits sum.splits)

lemma int_labels_decimal:
  "\<forall>l \<in> set ls. isdigit l \<longrightarrow> list_all is_decimal_char l \<Longrightarrow>
     int_labels ls = Inr (map int_of_digits (filter isdigit ls))"
proof (induction ls)
  case Nil
  then show ?case by simp
next
  case (Cons l ls)
  then have rest: "int_labels ls = Inr (map int_of_digits (filter isdigit ls))" by simp
  show ?case
  proof (cases "isdigit l")
    case False
    then show ?thesis using rest by simp
  next
    case True
    then have "list_all is_decimal_char l" and "l \<noteq> []"
      using Cons.prems by (auto simp: isdigit_def)
    then have "py_int l = Some (int_of_digits l)" by (simp add: py_int_decimal)
    then show ?thesis using True rest by simp
  qed
qed

lemma int_labels_nonneg: "int_labels ls = Inr ns \<Longrightarrow> \<forall>x \<in> set ns. 0 \<le> x"
  using int_labels_Inr [of ls ns] by (auto simp: int_of_digits_def)

lemma auto_label_Inr:
  "auto_label db order = Inr l \<Longrightarrow>
     \<exists>ns. int_labels (seat_labels db (order_id order)) = Inr ns \<and> l = str (max_default ns 0 + 1)"
  by (auto simp: auto_label_def Let_def split: sum.splits)

lemma auto_label_fresh:
  assumes "auto_label db order = Inr l"
  shows "l \<notin> set (seat_labels db (order_id order))"
proof
  let ?ls = "seat_labels db (order_id order)"
  assume mem: "l \<in> set ?ls"
  obtain ns where ns: "int_labels ?ls = Inr ns" and lab: "l = str (max_default ns 0 + 1)"
    using auto_label_Inr [OF assms] by auto
  let ?m = "max_default ns 0"
  have nonneg: "0 \<le> ?m"
    by (rule max_default_nonneg) (rule int_labels_nonneg [OF ns])
  then have d: "isdigit l" using lab by (simp add: isdigit_str)
  have "int_of_digits l = ?m + 1" using nonneg lab by (simp add: int_of_digits_str)
  moreover have "ns = map int_of_digits (filter isdigit ?ls)"
    using int_labels_Inr [OF ns] by simp
  ultimately have "?m + 1 \<in> set ns" using mem d by force
  then have "?m + 1 \<le> ?m" by (rule max_default_mem)
  then show False by simp
qed

lemma saved_keys:
  "map (\<lambda>s. (seat_order s, seat_label s))
     (map (\<lambda>(j, u). save_seat (n + int j) u) (zip [0..<length batch] batch))
   = map (\<lambda>u. (fst u, fst (snd u))) batch"
proof -
  have "map (\<lambda>s. (seat_order s, seat_label s))
          (map (\<lambda>(j, u). save_seat (n + int j) u) (zip [0..<length batch] batch))
        = map ((\<lambda>u. (fst u, fst (snd u))) \<circ> snd) (zip [0..<length batch] batch)"
    by (simp add: save_seat_def case_prod_unfold comp_def)
  also have "\<dots> = map (\<lambda>u. (fst u, fst (snd u))) (map snd (zip [0..<length batch] batch))"
    by (simp only: map_map)
  also have "map snd (zip [0..<length batch] batch) = batch"
    by (simp add: map_snd_zip)
  finally show ?thesis .
qed

lemma bulk_create_Inr:
  assumes "bulk_create batch db = Inr db'"
  shows "db' = db\<lparr>db_seats := db_seats db @
                     map (\<lambda>(j, u). save_seat (next_seat_id db + int j) u)
                       (zip [0..<length batch] batch),
                   next_seat_id := next_seat_id db + int (length batch)\<rparr>"
    and "\<forall>u \<in> set batch. fst (snd u) \<notin> set (seat_labels db (fst u))"
    and "distinct (map (\<lambda>u. (fst u, fst (snd u))) batch)"
  using assms by (auto simp: bulk_create_def list_ex_iff split: if_splits)

lemma bulk_create_ok:
  assumes "\<forall>u \<in> set batch. varchar_ok db 10 (fst (snd u))"
    and "\<forall>u \<in> set batch. fst (snd u) \<notin> set (seat_labels db (fst u))"
    and "distinct (map (\<lambda>u. (fst u, fst (snd u))) batch)"
  shows "bulk_create batch db =
           Inr (db\<lparr>db_seats := db_seats db @
                     map (\<lambda>(j, u). save_seat (next_seat_id db + int j) u)
                       (zip [0..<length batch] batch),
                   next_seat_id := next_seat_id db + int (length batch)\<rparr>)"
  using assms by (auto simp: bulk_create_def list_ex_iff)

lemma bulk_create_not_integrity:
  assumes "\<forall>u \<in> set batch. fst (snd u) \<notin> set (seat_labels db (fst u))"
    and "distinct (map (\<lambda>u. (fst u, fst (snd u))) batch)"
  shows "bulk_create batch db \<noteq> Inl IntegrityError"
  using assms by (auto simp: bulk_create_def list_ex_iff)

lemma bulk_create_unique:
  assumes inv: "unique_together db" and ok: "bulk_create batch db = Inr db'"
  shows "unique_together db'"
proof -
  note b = bulk_create_Inr [OF ok]
  have keys: "map (\<lambda>s. (seat_order s, seat_label s)) (db_seats db')
              = map (\<lambda>s. (seat_order s, seat_label s)) (db_seats db)
                @ map (\<lambda>u. (fst u, fst (snd u))) batch"
    by (subst b(1)) (simp add: saved_keys del: map_map)
  have disj: "set (map (\<lambda>s. (seat_order s, seat_label s)) (db_seats db))
              \<inter> set (map (\<lambda>u. (fst u, fst (snd u))) batch) = {}"
    using b(2) by (force simp: seat_labels_def)
  show ?thesis
    unfolding unique_together_def keys using inv b(3) disj
    by (simp add: unique_together_def)
qed


lemma distinct_range_keys: "distinct (map (\<lambda>u. (fst u, fst (snd u))) (seats_for_range oid a lo hi))"
proof -
  have "inj_on (\<lambda>i. (oid, str i)) (set [lo..hi])"
    by (auto simp: inj_on_def dest: str_inj)
  then have "distinct (map (\<lambda>i. (oid, str i)) [lo..hi])"
    by (simp add: distinct_map)
  then show ?thesis by (simp add: seats_for_range_def comp_def)
qed

section \<open>Facts about starting an order\<close>

lemma stafflog_create_known_staff:
  "objects_get staff_id (db_staff_members db) sid = Inr m \<Longrightarrow>
   db_staff_members db' = db_staff_members db \<Longrightarrow>
   stafflog_create sid action db' \<noteq> Inl IntegrityError"
  by (auto simp: stafflog_create_def objects_get_def split: option.splits)

lemma range_batch_fresh:
  assumes "\<forall>s \<in> set (db_seats db). seat_order s \<noteq> oid"
  shows "\<forall>u \<in> set (seats_for_range oid a lo hi). fst (snd u) \<notin> set (seat_labels db (fst u))"
  using assms by (auto simp: seats_for_range_def seat_labels_def)



lemma str_nat_length: "0 < k \<Longrightarrow> n < 10 ^ k \<Longrightarrow> length (str_nat n) \<le> k"
proof (induction n arbitrary: k rule: str_nat.induct)
  case (1 n)
  show ?case
  proof (cases "n < 10")
    case True
    then show ?thesis using "1.prems" by (simp add: str_nat_lt10)
  next
    case False
    then have "k \<noteq> 1" using "1.prems" by auto
    then obtain j where k: "k = Suc j" and j: "0 < j" using "1.prems"(1) by (cases k) auto
    have "n div 10 < 10 ^ j" using "1.prems"(2) k by (simp add: less_mult_imp_div_less)
    then have "length (str_nat (n div 10)) \<le> j" using "1.IH" False j by simp
    then show ?thesis using False k by (simp add: str_nat_ge10)
  qed
qed

lemma str_fits: "0 \<le> i \<Longrightarrow> i < 10000000000 \<Longrightarrow> length (str i) \<le> 10"
proof -
  assume a: "0 \<le> i" "i < 10000000000"
  then have "nat i < 10 ^ 10" by simp
  then have "length (str_nat (nat i)) \<le> 10" by (intro str_nat_length) simp_all
  then show ?thesis using a by (simp add: str_def)
qed

lemma start_order_reaches_block:
  assumes table: "get_object_or_404 table_id (db_tables db) tid = Inr table"
    and sess: "session_staff request = Some sid"
    and staff: "objects_get staff_id (db_staff_members db) sid = Inr staff_member"
    and count: "post_seat_count request = Some n"
    and rng: "parse_range (querydict_get (req_POST request) ''my_start'')
                (querydict_get (req_POST request) ''my_end'') = Inr seat_range"
  shows "start_order now tid request db =
     (case atomic (start_order_block table staff_member now seat_range n) db of
        (Inl e, db') \<Rightarrow> (Raised e, db')
      | (Inr (order, seats_to_create), db') \<Rightarrow>
          (case stafflog_create (staff_id staff_member)
                  (''started order #'' @ str (order_id order)
                   @ '' on table '' @ str (table_number table)
                   @ '' with '' @ str (int (length seats_to_create))
                   @ '' seats'') db' of
             Inl e \<Rightarrow> (Raised e, db')
           | Inr db'' \<Rightarrow>
               (Returned (Redirect (Table_detail (table_id table)) [])
                  [(SUCCESS, ''Order started on Table ''
                      @ str (table_number table) @ '' with ''
                      @ str (int (length seats_to_create)) @ '' seats.'')],
                db'')))"
  by (simp add: start_order_def staff_required_def start_order_body_def table sess staff count rng)

lemma start_order_rolls_back:
  assumes table: "get_object_or_404 table_id (db_tables db) tid = Inr table"
    and sess: "session_staff request = Some sid"
    and staff: "objects_get staff_id (db_staff_members db) sid = Inr staff_member"
    and count: "post_seat_count request = Some n"
    and rng: "parse_range (querydict_get (req_POST request) ''my_start'')
                (querydict_get (req_POST request) ''my_end'') = Inr seat_range"
    and bounds: "(lo, hi) = (case seat_range of Some (a, b) \<Rightarrow> (a, b) | None \<Rightarrow> (1, n))"
    and fails: "bulk_create (seats_for_range (next_order_id db) None lo hi)
                  (snd (order_create table staff_member now db)) = Inl e"
  shows "start_order now tid request db = (Raised e, db)"
proof -
  have oid: "order_id (fst (order_create table staff_member now db)) = next_order_id db"
    by (simp add: order_create_def Let_def)
  have "fst (start_order_block table staff_member now seat_range n db) = Inl e"
    using bounds fails
    by (cases seat_range) (auto simp: start_order_block_def case_prod_unfold Let_def oid)
  then have "atomic (start_order_block table staff_member now seat_range n) db = (Inl e, db)"
    by (cases "start_order_block table staff_member now seat_range n db") (simp add: atomic_def)
  then show ?thesis
    by (simp add: start_order_reaches_block [OF table sess staff count rng])
qed

lemma start_order_commits:
  assumes table: "get_object_or_404 table_id (db_tables db) tid = Inr table"
    and sess: "session_staff request = Some sid"
    and staff: "objects_get staff_id (db_staff_members db) sid = Inr staff_member"
    and count: "post_seat_count request = Some n"
    and rng: "parse_range (querydict_get (req_POST request) ''my_start'')
                (querydict_get (req_POST request) ''my_end'') = Inr seat_range"
    and bounds: "(lo, hi) = (case seat_range of Some (a, b) \<Rightarrow> (a, b) | None \<Rightarrow> (1, n))"
    and ok: "bulk_create (seats_for_range (next_order_id db) None lo hi)
                  (snd (order_create table staff_member now db)) = Inr db2"
  shows "db_orders (snd (start_order now tid request db)) = db_orders db2"
    and "db_seats (snd (start_order now tid request db)) = db_seats db2"
proof -
  have oid: "order_id (fst (order_create table staff_member now db)) = next_order_id db"
    by (simp add: order_create_def Let_def)
  have "start_order_block table staff_member now seat_range n db
        = (Inr (fst (order_create table staff_member now db),
                seats_for_range (next_order_id db) None lo hi), db2)"
    using bounds ok
    by (cases seat_range) (auto simp: start_order_block_def case_prod_unfold Let_def oid)
  then have a: "atomic (start_order_block table staff_member now seat_range n) db
        = (Inr (fst (order_create table staff_member now db),
                seats_for_range (next_order_id db) None lo hi), db2)"
    by (simp add: atomic_def)
  show "db_orders (snd (start_order now tid request db)) = db_orders db2"
    by (simp add: start_order_reaches_block [OF table sess staff count rng] a
          stafflog_create_def split: sum.split)
  show "db_seats (snd (start_order now tid request db)) = db_seats db2"
    by (simp add: start_order_reaches_block [OF table sess staff count rng] a
          stafflog_create_def split: sum.split)
qed

lemmas start_eval = start_order_def staff_required_def start_order_body_def post_seat_count_def
  parse_range_def atomic_def start_order_block_def order_create_def bulk_create_def
  seats_for_range_def stafflog_create_def varchar_ok_def seat_labels_def save_seat_def

lemma parse_range_None_iff: "parse_range s e = Inr None \<longleftrightarrow> s = None \<or> e = None"
  by (auto simp: parse_range_def split: option.splits)

lemma parse_range_Some_iff:
  "parse_range (Some s) (Some e) = Inr (Some (a, b)) \<longleftrightarrow> py_int s = Some a \<and> py_int e = Some b"
  by (auto simp: parse_range_def split: option.splits)




section \<open>Facts about joining an order\<close>

lemma IntegerField_clean_min: "IntegerField_clean raw = Inr (Some v) \<Longrightarrow> 1 \<le> v"
  by (auto simp: IntegerField_clean_def split: option.splits if_splits)

lemma StartOrderForm_clean_iff:
  "StartOrderForm_clean start stop count \<longleftrightarrow>
     (start = None \<and> stop = None)
     \<or> (\<exists>a b. start = Some a \<and> stop = Some b \<and> a \<le> b \<and> (\<forall>c. count = Some c \<longrightarrow> b \<le> c))"
  by (auto simp: StartOrderForm_clean_def split: option.splits)

lemma StartOrderForm_range:
  assumes "StartOrderForm post = Some (count, Some a, Some b)"
  shows "1 \<le> a" and "a \<le> b"
proof -
  from assms have f: "IntegerField_clean (querydict_get post ''my_seat_start'') = Inr (Some a)"
    and c: "StartOrderForm_clean (Some a) (Some b) count"
    by (auto simp: StartOrderForm_def split: sum.splits if_splits)
  show "1 \<le> a" using f by (rule IntegerField_clean_min)
  show "a \<le> b" using c by (simp add: StartOrderForm_clean_iff)
qed

lemma existing_numeric_labels_image:
  "existing_numeric_labels db order =
     {i. \<exists>l \<in> set (seat_labels db (order_id order)). isdigit l \<and> py_int l = Some i}"
  by (force simp: existing_numeric_labels_def List.map_filter_def split: if_splits)

lemma str_existing:
  assumes "0 \<le> i" and "str i \<in> set (seat_labels db (order_id order))"
  shows "i \<in> existing_numeric_labels db order"
  unfolding existing_numeric_labels_image using assms isdigit_str [of i] py_int_str [of i]
  by blast

lemma drop_existing_range:
  "drop_existing ex (map (\<lambda>i. (oid, str i, st)) xs)
   = Inr (map (\<lambda>i. (oid, str i, st)) (filter (\<lambda>i. i \<notin> ex) xs))"
  by (induction xs) (simp_all add: py_int_str)

lemma no_overlap_fresh:
  assumes a: "0 \<le> a" and no: "existing_numeric_labels db order \<inter> {a..b} = {}"
  shows "\<forall>u \<in> set (seats_for_range (order_id order) st a b).
           fst (snd u) \<notin> set (seat_labels db (fst u))"
proof
  fix u assume "u \<in> set (seats_for_range (order_id order) st a b)"
  then obtain i where i: "a \<le> i" "i \<le> b" and u: "u = (order_id order, str i, st)"
    by (auto simp: seats_for_range_def)
  show "fst (snd u) \<notin> set (seat_labels db (fst u))"
  proof
    assume "fst (snd u) \<in> set (seat_labels db (fst u))"
    then have mem: "str i \<in> set (seat_labels db (order_id order))" using u by simp
    have "0 \<le> i" using a i by simp
    then have "i \<in> existing_numeric_labels db order" using mem by (rule str_existing)
    with i no show False by auto
  qed
qed


lemma join_order_reaches_range:
  assumes post: "req_method request = POST"
    and table: "get_object_or_404 table_id (db_tables db) tid = Inr table"
    and order: "first_open_order db tid = Some order"
    and form: "StartOrderForm (req_POST request) = Some (count, Some a, Some b)"
    and staff: "session_staff_member request db = Inr staff_member"
  shows "join_order tid request db =
     (if existing_numeric_labels db order \<inter> {a..b} \<noteq> {}
      then (Returned (Redirect (Table_detail tid) (range_query a b))
              [(ERROR, overlap_message (existing_numeric_labels db order \<inter> {a..b}))], db)
      else (case bulk_create (seats_for_range (order_id order) staff_member a b) db of
              Inl e \<Rightarrow> (Raised e, db)
            | Inr db' \<Rightarrow>
                (Returned (Redirect (Table_detail tid) (range_query a b))
                   [(SUCCESS,
                     str (int (length (seats_for_range (order_id order) staff_member a b)))
                     @ '' seats added (#'' @ str a @ ''-'' @ str b @ '').'')],
                 db')))"
proof -
  have tid: "table_id table = tid"
    using get_object_or_404_pk [OF table] by simp
  show ?thesis
    by (simp add: join_order_def require_POST_def post join_order_body_def table tid order form
          staff Let_def split: sum.split)
qed


lemma zip_range_batch:
  "map (\<lambda>(j, u). save_seat (n + int j) u)
     (zip [0..<length (seats_for_range oid st a b)] (seats_for_range oid st a b))
   = map (\<lambda>(j, i). \<lparr>seat_id = n + int j, seat_order = oid, seat_label = str i,
                        seat_assigned_to = st\<rparr>) (zip [0..<length [a..b]] [a..b])"
  by (simp add: seats_for_range_def zip_map2 save_seat_def case_prod_unfold)

lemmas form_eval =
  StartOrderForm_def IntegerField_clean_def re_decimal_sub_def StartOrderForm_clean_def

lemma join_order_invalid_form:
  assumes post: "req_method request = POST"
    and table: "get_object_or_404 table_id (db_tables db) tid = Inr table"
    and order: "first_open_order db tid = Some order"
    and form: "StartOrderForm (req_POST request) = None"
  shows "join_order tid request db =
           (Returned (Redirect (Table_detail tid) [])
              [(ERROR, ''Invalid range '' @ en_dash @ '' please correct the values.'')], db)"
proof -
  have tid: "table_id table = tid"
    using get_object_or_404_pk [OF table] by simp
  show ?thesis
    by (simp add: join_order_def require_POST_def post join_order_body_def table tid order form)
qed

lemma StartOrderForm_rejects:
  assumes "IntegerField_clean (querydict_get post ''seat_count'') = Inr count"
    and "IntegerField_clean (querydict_get post ''my_seat_start'') = Inr start"
    and "IntegerField_clean (querydict_get post ''my_seat_end'') = Inr stop"
    and "(start = None) \<noteq> (stop = None)
         \<or> (\<exists>a b. start = Some a \<and> stop = Some b \<and> (b < a \<or> (\<exists>c. count = Some c \<and> c < b)))"
  shows "StartOrderForm post = None"
  using assms by (auto simp: StartOrderForm_def StartOrderForm_clean_def)

section \<open>Facts about the uniqueness of seat labels\<close>

lemma get_object_or_404_Inl: "get_object_or_404 pk rows k = Inl e \<Longrightarrow> e = Http404"
  by (auto simp: get_object_or_404_def split: option.splits)

lemma objects_get_Inl: "objects_get pk rows k = Inl e \<Longrightarrow> e = DoesNotExist"
  by (auto simp: objects_get_def split: option.splits)

lemma stafflog_create_unique:
  "stafflog_create sid action db = Inr db' \<Longrightarrow> unique_together db' = unique_together db"
  by (auto simp: stafflog_create_def unique_together_def split: if_splits)

lemma start_order_cases:
  obtains (early) "snd (start_order now tid request db) = db"
      and "fst (start_order now tid request db) \<noteq> Raised IntegrityError"
    | (block) table sid staff_member n seat_range
      where "get_object_or_404 table_id (db_tables db) tid = Inr table"
        and "session_staff request = Some sid"
        and "objects_get staff_id (db_staff_members db) sid = Inr staff_member"
        and "post_seat_count request = Some n"
        and "parse_range (querydict_get (req_POST request) ''my_start'')
               (querydict_get (req_POST request) ''my_end'') = Inr seat_range"
proof (cases "session_staff request")
  case None
  then have "start_order now tid request db = (login_redirect, db)"
    by (simp add: start_order_def staff_required_def)
  then show ?thesis using early by (simp add: login_redirect_def)
next
  case (Some sid)
  note sess = this
  show ?thesis
  proof (cases "get_object_or_404 table_id (db_tables db) tid")
    case (Inl e)
    then have "start_order now tid request db = (Raised Http404, db)"
      using get_object_or_404_Inl [OF Inl]
      by (simp add: start_order_def staff_required_def start_order_body_def sess)
    then show ?thesis using early by simp
  next
    case (Inr table)
    note table = this
    show ?thesis
    proof (cases "objects_get staff_id (db_staff_members db) sid")
      case (Inl e)
      then have "start_order now tid request db = (Raised DoesNotExist, db)"
        using objects_get_Inl [OF Inl]
        by (simp add: start_order_def staff_required_def start_order_body_def sess table)
      then show ?thesis using early by simp
    next
      case (Inr staff_member)
      note staff = this
      show ?thesis
      proof (cases "post_seat_count request")
        case None
        then have "start_order now tid request db = (Raised ValueError, db)"
          by (simp add: start_order_def staff_required_def start_order_body_def sess table staff)
        then show ?thesis using early by simp
      next
        case (Some n)
        note count = this
        show ?thesis
        proof (cases "parse_range (querydict_get (req_POST request) ''my_start'')
               (querydict_get (req_POST request) ''my_end'')")
          case (Inl u)
          then have "start_order now tid request db =
              (Returned (Redirect (Table_detail (table_id table)) [])
                 [(ERROR, ''Invalid seat range.'')], db)"
            by (simp add: start_order_def staff_required_def start_order_body_def sess table staff count)
          then show ?thesis using early by simp
        next
          case (Inr seat_range)
          then show ?thesis using block table sess staff count by blast
        qed
      qed
    qed
  qed
qed

lemma start_order_block_unique:
  assumes inv: "unique_together db"
  shows "unique_together (snd (atomic (start_order_block table staff_member now seat_range n) db))"
proof -
  let ?db1 = "snd (order_create table staff_member now db)"
  have u1: "unique_together ?db1"
    using inv by (simp add: unique_together_def order_create_def Let_def)
  obtain r db' where blk: "start_order_block table staff_member now seat_range n db = (r, db')"
    by (cases "start_order_block table staff_member now seat_range n db")
  show ?thesis
  proof (cases r)
    case (Inl e)
    then show ?thesis using blk inv by (simp add: atomic_def)
  next
    case (Inr v)
    then obtain batch where "bulk_create batch ?db1 = Inr db'"
      using blk
      by (auto simp: start_order_block_def case_prod_unfold Let_def split: sum.splits)
    then have "unique_together db'" using u1 by (rule bulk_create_unique [rotated])
    then show ?thesis using blk Inr by (simp add: atomic_def)
  qed
qed

lemma start_order_block_not_integrity:
  assumes fresh: "\<forall>s \<in> set (db_seats db). seat_order s \<noteq> next_order_id db"
  shows "fst (start_order_block table staff_member now seat_range n db) \<noteq> Inl IntegrityError"
proof -
  let ?db1 = "snd (order_create table staff_member now db)"
  have oid: "order_id (fst (order_create table staff_member now db)) = next_order_id db"
    by (simp add: order_create_def Let_def)
  have lab: "seat_labels ?db1 = seat_labels db"
    by (simp add: seat_labels_def order_create_def Let_def fun_eq_iff)
  have "bulk_create (seats_for_range (next_order_id db) None lo hi) ?db1 \<noteq> Inl IntegrityError"
    for lo hi
  proof (rule bulk_create_not_integrity)
    show "\<forall>u \<in> set (seats_for_range (next_order_id db) None lo hi).
            fst (snd u) \<notin> set (seat_labels ?db1 (fst u))"
      unfolding lab by (rule range_batch_fresh [OF fresh])
    show "distinct (map (\<lambda>u. (fst u, fst (snd u))) (seats_for_range (next_order_id db) None lo hi))"
      by (rule distinct_range_keys)
  qed
  then show ?thesis
    by (cases seat_range)
      (auto simp: start_order_block_def case_prod_unfold Let_def oid split: sum.splits)
qed

lemma start_order_unique:
  assumes inv: "unique_together db"
  shows "unique_together (snd (start_order now tid request db))"
proof (cases rule: start_order_cases [of now tid request db])
  case early
  then show ?thesis using inv by simp
next
  case (block table sid staff_member n seat_range)
  note reach = start_order_reaches_block [OF block]
  have u: "unique_together (snd (atomic (start_order_block table staff_member now seat_range n) db))"
    by (rule start_order_block_unique [OF inv])
  obtain r db' where a: "atomic (start_order_block table staff_member now seat_range n) db = (r, db')"
    by (cases "atomic (start_order_block table staff_member now seat_range n) db")
  with u have u': "unique_together db'" by simp
  show ?thesis
    using u' by (auto simp: reach a stafflog_create_unique split: sum.splits prod.splits)
qed

lemma start_order_not_integrity:
  assumes fresh: "\<forall>s \<in> set (db_seats db). seat_order s \<noteq> next_order_id db"
  shows "fst (start_order now tid request db) \<noteq> Raised IntegrityError"
proof (cases rule: start_order_cases [of now tid request db])
  case early
  then show ?thesis by simp
next
  case (block table sid staff_member n seat_range)
  note reach = start_order_reaches_block [OF block]
  note nb = start_order_block_not_integrity [OF fresh, of table staff_member now seat_range n]
  obtain r db1 where blk: "start_order_block table staff_member now seat_range n db = (r, db1)"
    by (cases "start_order_block table staff_member now seat_range n db")
  have sid: "staff_id staff_member = sid"
    using objects_get_pk [OF block(3)] by simp
  show ?thesis
  proof (cases r)
    case (Inl e)
    then have "e \<noteq> IntegrityError" using nb blk by auto
    then show ?thesis using Inl blk by (simp add: reach atomic_def)
  next
    case (Inr v)
    obtain order seats_to_create where v: "v = (order, seats_to_create)" by (cases v)
    have members: "db_staff_members db1 = db_staff_members db"
      using blk Inr
      by (auto simp: start_order_block_def case_prod_unfold Let_def order_create_def
            dest!: bulk_create_Inr(1) split: sum.splits)
    have "stafflog_create sid action db1 \<noteq> Inl IntegrityError" for action
      by (rule stafflog_create_known_staff [OF block(3) members])
    then show ?thesis
      using Inr v blk by (auto simp: reach atomic_def sid split: sum.splits)
  qed
qed


lemma seat_create_Inr:
  "seat_create oid l db = Inr (seat, db') \<Longrightarrow> bulk_create [(oid, l, None)] db = Inr db'"
  by (auto simp: seat_create_def split: sum.splits)

lemma seat_create_Inl:
  "seat_create oid l db = Inl e \<Longrightarrow> bulk_create [(oid, l, None)] db = Inl e"
  by (auto simp: seat_create_def split: sum.splits)

lemma add_seat_unique:
  assumes inv: "unique_together db"
  shows "unique_together (snd (add_seat oid request db))"
proof -
  have "snd (add_seat oid request db) = db
        \<or> (\<exists>batch db'. bulk_create batch db = Inr db' \<and> snd (add_seat oid request db) = db')"
    by (auto simp: add_seat_def require_POST_def add_seat_body_def
          dest: seat_create_Inr split: sum.splits)
  then show ?thesis using inv bulk_create_unique [OF inv] by auto
qed

lemma add_seat_not_integrity: "fst (add_seat oid request db) \<noteq> Raised IntegrityError"
proof -
  have "bulk_create [(order_id order, l, None)] db \<noteq> Inl IntegrityError"
    if "auto_label db order = Inr l" for order l
    by (rule bulk_create_not_integrity) (simp_all add: auto_label_fresh [OF that])
  moreover have "e \<noteq> IntegrityError" if "auto_label db order = Inl e" for order e
    using that int_labels_Inl by (auto simp: auto_label_def Let_def split: sum.splits)
  ultimately show ?thesis
    by (auto simp: add_seat_def require_POST_def add_seat_body_def
          dest: seat_create_Inl get_object_or_404_Inl objects_get_Inl split: sum.splits)
qed

lemma drop_existing_seats:
  "drop_existing ex (seats_for_range oid st lo hi)
   = Inr (map (\<lambda>i. (oid, str i, st)) (filter (\<lambda>i. i \<notin> ex) [lo..hi]))"
  by (simp add: seats_for_range_def drop_existing_range)

lemma count_batch_fresh:
  "\<forall>u \<in> set (map (\<lambda>i. (order_id order, str i, st))
                   (filter (\<lambda>i. i \<notin> existing_numeric_labels db order) [1..n])).
     fst (snd u) \<notin> set (seat_labels db (fst u))"
proof
  fix u
  assume "u \<in> set (map (\<lambda>i. (order_id order, str i, st))
                   (filter (\<lambda>i. i \<notin> existing_numeric_labels db order) [1..n]))"
  then obtain i where i: "1 \<le> i" and u: "u = (order_id order, str i, st)"
    and free: "i \<notin> existing_numeric_labels db order"
    by auto
  show "fst (snd u) \<notin> set (seat_labels db (fst u))"
  proof
    assume "fst (snd u) \<in> set (seat_labels db (fst u))"
    then have "str i \<in> set (seat_labels db (order_id order))" using u by simp
    moreover have "0 \<le> i" using i by simp
    ultimately have "i \<in> existing_numeric_labels db order" by (rule str_existing [rotated])
    with free show False by simp
  qed
qed

lemma distinct_filter_keys:
  "distinct (map (\<lambda>u. (fst u, fst (snd u))) (map (\<lambda>i. (oid, str i, st)) (filter P [lo..hi])))"
proof -
  have "inj_on (\<lambda>i. (oid, str i)) (set (filter P [lo..hi]))"
    by (auto simp: inj_on_def dest: str_inj)
  then have "distinct (map (\<lambda>i. (oid, str i)) (filter P [lo..hi]))"
    by (simp add: distinct_map)
  then show ?thesis by (simp add: comp_def)
qed

lemma join_order_unique:
  assumes inv: "unique_together db"
  shows "unique_together (snd (join_order tid request db))"
proof -
  have "snd (join_order tid request db) = db
        \<or> (\<exists>batch db'. bulk_create batch db = Inr db' \<and> snd (join_order tid request db) = db')"
    by (auto simp: join_order_def require_POST_def join_order_body_def Let_def drop_existing_seats
          split: sum.splits option.splits prod.splits)
  then show ?thesis using inv bulk_create_unique [OF inv] by auto
qed

lemma session_staff_member_Inl: "session_staff_member request db = Inl e \<Longrightarrow> e = DoesNotExist"
  by (auto simp: session_staff_member_def dest: objects_get_Inl split: option.splits sum.splits)

lemma join_order_not_integrity: "fst (join_order tid request db) \<noteq> Raised IntegrityError"
proof -
  have explicit: "bulk_create (seats_for_range (order_id order) st a b) db \<noteq> Inl IntegrityError"
    if "StartOrderForm (req_POST request) = Some (count, Some a, Some b)"
      and "existing_numeric_labels db order \<inter> {a..b} = {}" for order st a b count
  proof -
    have "0 \<le> a" using StartOrderForm_range(1) [OF that(1)] by simp
    then show ?thesis
      by (intro bulk_create_not_integrity no_overlap_fresh that(2) distinct_range_keys)
  qed
  have counted: "bulk_create
        (map (\<lambda>i. (order_id order, str i, st))
           (filter (\<lambda>i. i \<notin> existing_numeric_labels db order) [1..n])) db
        \<noteq> Inl IntegrityError" for order st n
    by (intro bulk_create_not_integrity count_batch_fresh distinct_filter_keys)
  show ?thesis
    using explicit counted
    by (auto simp: join_order_def require_POST_def join_order_body_def Let_def drop_existing_seats
          dest: get_object_or_404_Inl session_staff_member_Inl
          split: sum.splits option.splits prod.splits)
qed

section \<open>Facts about selections\<close>


lemma get_object_or_404_raw_Inr:
  "get_object_or_404_raw pk rows raw = Inr r \<Longrightarrow>
     \<exists>s k. raw = Some s \<and> py_int s = Some k \<and> pk r = k \<and> r \<in> set rows"
  by (auto simp: get_object_or_404_raw_def dest: get_object_or_404_pk split: option.splits)




















section \<open>Facts about requests without a staff identity\<close>

lemma session_free_views:
  "add_seat oid (request\<lparr>session_staff_id := s\<rparr>) db = add_seat oid request db"
  "remove_seat sid (request\<lparr>session_staff_id := s\<rparr>) db = remove_seat sid request db"
  "add_selection (request\<lparr>session_staff_id := s\<rparr>) db = add_selection request db"
  "remove_selection k (request\<lparr>session_staff_id := s\<rparr>) db = remove_selection k request db"
proof -
  have P: "req_POST (request\<lparr>session_staff_id := s\<rparr>) = req_POST request"
    and M: "req_method (request\<lparr>session_staff_id := s\<rparr>) = req_method request"
    by simp_all
  show "add_seat oid (request\<lparr>session_staff_id := s\<rparr>) db = add_seat oid request db"
    unfolding add_seat_def add_seat_body_def require_POST_def P M by (rule refl)
  show "remove_seat sid (request\<lparr>session_staff_id := s\<rparr>) db = remove_seat sid request db"
    unfolding remove_seat_def remove_seat_body_def require_POST_def P M by (rule refl)
  show "add_selection (request\<lparr>session_staff_id := s\<rparr>) db = add_selection request db"
    unfolding add_selection_def add_selection_body_def require_POST_def P M by (rule refl)
  show "remove_selection k (request\<lparr>session_staff_id := s\<rparr>) db = remove_selection k request db"
    unfolding remove_selection_def remove_selection_body_def require_POST_def P M by (rule refl)
qed

lemma start_order_no_staff:
  "session_staff request = None \<Longrightarrow>
   start_order now tid request db =
     (Returned (Redirect Staff_login []) [(WARNING, ''Please enter your staff code.'')], db)"
  by (simp add: start_order_def staff_required_def login_redirect_def)

lemma close_order_no_staff:
  assumes none: "session_staff request = None"
    and post: "req_method request = POST"
    and order: "get_object_or_404 order_id (db_orders db) oid = Inr order"
    and table: "objects_get table_id (db_tables db) (order_table order) = Inr table"
  shows "close_order oid request db =
           (Returned (Redirect (Room_tables (table_room table)) []) [(INFO, ''Order closed.'')],
            order_delete oid db)"
proof -
  have "order_id order = oid" using get_object_or_404_pk [OF order] by simp
  then show ?thesis
    by (simp add: close_order_def require_POST_def post close_order_body_def order table none)
qed

lemma move_selection_no_staff:
  assumes none: "session_staff request = None"
    and post: "req_method request = POST"
    and sel: "get_object_or_404_raw sel_id (db_selections db)
                (querydict_get (req_POST request) ''selection_id'') = Inr selection"
    and seat: "get_object_or_404_raw seat_id (db_seats db)
                (querydict_get (req_POST request) ''target_seat_id'') = Inr target_seat"
    and fits: "varchar_ok db 200 (sel_notes selection)"
  shows "move_selection request db =
           (Returned (JsonResponse 200 [(''status'', ''ok'')]) [],
            db\<lparr>db_selections :=
                 map (\<lambda>x. if sel_id x = sel_id selection
                           then x\<lparr>sel_seat := seat_id target_seat, sel_item := sel_item selection,
                                  sel_notes := sel_notes selection\<rparr>
                           else x) (db_selections db)\<rparr>)"
proof -
  have present: "\<not> falsy (querydict_get (req_POST request) ''selection_id'')"
    "\<not> falsy (querydict_get (req_POST request) ''target_seat_id'')"
    using get_object_or_404_raw_Inr [OF sel] get_object_or_404_raw_Inr [OF seat]
    by (auto simp: falsy_def py_int_def int_strip_def)
  have saved: "selection_save (selection\<lparr>sel_seat := seat_id target_seat\<rparr>) db =
      Inr (db\<lparr>db_selections :=
                 map (\<lambda>x. if sel_id x = sel_id selection
                           then x\<lparr>sel_seat := seat_id target_seat, sel_item := sel_item selection,
                                  sel_notes := sel_notes selection\<rparr>
                           else x) (db_selections db)\<rparr>)"
    using fits by (simp add: selection_save_def cong: if_cong)
  show ?thesis
    using present
    by (simp add: move_selection_def require_POST_def post move_selection_body_def Let_def sel seat
          saved move_selection_log_def none)
qed

lemma join_order_no_staff:
  assumes none: "session_staff request = None"
    and post: "req_method request = POST"
    and table: "get_object_or_404 table_id (db_tables db) tid = Inr table"
    and order: "first_open_order db tid = Some order"
    and form: "StartOrderForm (req_POST request) = Some (count, Some a, Some b)"
    and no: "existing_numeric_labels db order \<inter> {a..b} = {}"
    and fits: "\<forall>i \<in> {a..b}. varchar_ok db 10 (str i)"
  shows "snd (join_order tid request db) =
           db\<lparr>db_seats := db_seats db @
                  map (\<lambda>(j, i). \<lparr>seat_id = next_seat_id db + int j, seat_order = order_id order,
                                  seat_label = str i, seat_assigned_to = None\<rparr>)
                    (zip [0..<length [a..b]] [a..b]),
              next_seat_id := next_seat_id db + int (length [a..b])\<rparr>"
proof -
  have staff: "session_staff_member request db = Inr None"
    by (simp add: session_staff_member_def none)
  note reach = join_order_reaches_range [OF post table order form staff]
  have a: "0 \<le> a" using StartOrderForm_range(1) [OF form] by simp
  have a1: "\<forall>u \<in> set (seats_for_range (order_id order) None a b). varchar_ok db 10 (fst (snd u))"
    using fits by (auto simp: seats_for_range_def)
  note ok = bulk_create_ok [OF a1 no_overlap_fresh [OF a no] distinct_range_keys]
  have len: "length (seats_for_range (order_id order) None a b) = length [a..b]"
    by (simp add: seats_for_range_def)
  show ?thesis
    by (simp add: reach no ok zip_range_batch) (simp add: len)
qed

lemmas close_eval = close_order_def require_POST_def close_order_body_def order_delete_def


section \<open>Facts about the seats shown for a table\<close>









section \<open>Joining an order with an explicit range\<close>



section \<open>The staff guard\<close>

text \<open>
  C2, as the code has it: of the write operations only \<^verbatim>\<open>start_order\<close> is wrapped in
  \<^verbatim>\<open>staff_required\<close>. A request whose session has no staff id is redirected by
  \<^verbatim>\<open>start_order\<close> to the login page and changes nothing. The other writes carry the POST
  guard only and go ahead without a staff identity: \<^verbatim>\<open>add_seat\<close>, \<^verbatim>\<open>remove_seat\<close>,
  \<^verbatim>\<open>add_selection\<close> and \<^verbatim>\<open>remove_selection\<close> answer exactly as they do with one;
  \<^verbatim>\<open>close_order\<close> deletes the order and only skips the audit entry;
  \<^verbatim>\<open>move_selection\<close> moves the selection and only skips the audit entry;
  \<^verbatim>\<open>join_order\<close> creates the seats and leaves them unassigned.
\<close>

theorem staff_required_gates_start_order_only:
  assumes none: "session_staff request = None"
  shows "start_order now tid request db =
           (Returned (Redirect Staff_login []) [(WARNING, ''Please enter your staff code.'')], db)
       \<and> add_seat oid request db = add_seat oid (request\<lparr>session_staff_id := Some staff\<rparr>) db
       \<and> remove_seat sid request db = remove_seat sid (request\<lparr>session_staff_id := Some staff\<rparr>) db
       \<and> add_selection request db = add_selection (request\<lparr>session_staff_id := Some staff\<rparr>) db
       \<and> remove_selection k request db
           = remove_selection k (request\<lparr>session_staff_id := Some staff\<rparr>) db
       \<and> (req_method request = POST \<longrightarrow>
            get_object_or_404 order_id (db_orders db) oid = Inr order \<longrightarrow>
            objects_get table_id (db_tables db) (order_table order) = Inr table \<longrightarrow>
            close_order oid request db =
              (Returned (Redirect (Room_tables (table_room table)) []) [(INFO, ''Order closed.'')],
               order_delete oid db))
       \<and> (req_method request = POST \<longrightarrow>
            get_object_or_404_raw sel_id (db_selections db)
              (querydict_get (req_POST request) ''selection_id'') = Inr selection \<longrightarrow>
            get_object_or_404_raw seat_id (db_seats db)
              (querydict_get (req_POST request) ''target_seat_id'') = Inr target_seat \<longrightarrow>
            varchar_ok db 200 (sel_notes selection) \<longrightarrow>
            move_selection request db =
              (Returned (JsonResponse 200 [(''status'', ''ok'')]) [],
               db\<lparr>db_selections :=
                    map (\<lambda>x. if sel_id x = sel_id selection
                              then x\<lparr>sel_seat := seat_id target_seat, sel_item := sel_item selection,
                                     sel_notes := sel_notes selection\<rparr>
                              else x) (db_selections db)\<rparr>))
       \<and> (req_method request = POST \<longrightarrow>
            get_object_or_404 table_id (db_tables db) tid = Inr joined_table \<longrightarrow>
            first_open_order db tid = Some open_order \<longrightarrow>
            StartOrderForm (req_POST request) = Some (count, Some a, Some b) \<longrightarrow>
            existing_numeric_labels db open_order \<inter> {a..b} = {} \<longrightarrow>
            (\<forall>i \<in> {a..b}. varchar_ok db 10 (str i)) \<longrightarrow>
            snd (join_order tid request db) =
              db\<lparr>db_seats := db_seats db @
                     map (\<lambda>(j, i). \<lparr>seat_id = next_seat_id db + int j, seat_order = order_id open_order,
                                     seat_label = str i, seat_assigned_to = None\<rparr>)
                       (zip [0..<length [a..b]] [a..b]),
                 next_seat_id := next_seat_id db + int (length [a..b])\<rparr>)"
  using start_order_no_staff [OF none] session_free_views [where request = request and s = "Some staff" and db = db]
    close_order_no_staff [OF none] move_selection_no_staff [OF none] join_order_no_staff [OF none]
  by (intro conjI impI) simp_all

theorem staff_required_gates_start_order_only_witness:
  "session_staff (post_request [] None) = None
   \<and> start_order 100 1 (post_request [] None) db_sel
       = (Returned (Redirect Staff_login []) [(WARNING, ''Please enter your staff code.'')], db_sel)
   \<and> add_seat 1 (post_request [] None) db_sel = add_seat 1 (post_request [] (Some 1)) db_sel
   \<and> get_object_or_404 order_id (db_orders db_sel) 1 = Inr order1
   \<and> objects_get table_id (db_tables db_sel) (order_table order1) = Inr table7
   \<and> close_order 1 (post_request [] None) db_sel
       = (Returned (Redirect (Room_tables 2) []) [(INFO, ''Order closed.'')], order_delete 1 db_sel)
   \<and> db_orders (order_delete 1 db_sel) = []
   \<and> db_selections (order_delete 1 db_sel) = []
   \<and> map sel_seat (db_selections (snd (move_selection
         (post_request [(''selection_id'', ''1''), (''target_seat_id'', ''3'')] None) db_sel))) = [3, 2]
   \<and> map seat_label (db_seats (snd (join_order 1
         (post_request [(''my_seat_start'', ''5''), (''my_seat_end'', ''6'')] None) db_sel)))
       = [''1'', ''2'', ''3'', ''4'', ''5'', ''6'']
   \<and> map seat_assigned_to (db_seats (snd (join_order 1
         (post_request [(''my_seat_start'', ''5''), (''my_seat_end'', ''6'')] None) db_sel)))
       = [None, None, None, None, None, None]"
proof -
  let ?R = "post_request [] None"
  let ?M = "post_request [(''selection_id'', ''1''), (''target_seat_id'', ''3'')] None"
  let ?J = "post_request [(''my_seat_start'', ''5''), (''my_seat_end'', ''6'')] None"
  have none: "session_staff ?R = None" "session_staff ?M = None" "session_staff ?J = None"
    by (simp_all add: db_eval store_eval)
  have post: "req_method ?R = POST" "req_method ?M = POST" "req_method ?J = POST"
    by (simp_all add: post_request_def)
  have upd: "?R\<lparr>session_staff_id := Some 1\<rparr> = post_request [] (Some 1)"
    by (simp add: post_request_def)
  have order: "get_object_or_404 order_id (db_orders db_sel) 1 = Inr order1"
    by (simp add: db_eval store_eval)
  have table: "objects_get table_id (db_tables db_sel) (order_table order1) = Inr table7"
    by (simp add: db_eval store_eval)
  have room: "table_room table7 = 2"
    by (simp add: table7_def)
  have sel: "get_object_or_404_raw sel_id (db_selections db_sel)
                (querydict_get (req_POST ?M) ''selection_id'') = Inr sel_a"
    by (simp add: get_object_or_404_raw_def db_eval store_eval text_eval)
  have seat: "get_object_or_404_raw seat_id (db_seats db_sel)
                (querydict_get (req_POST ?M) ''target_seat_id'') = Inr (seat_row 3 ''3'')"
    by (simp add: get_object_or_404_raw_def db_eval store_eval text_eval)
  have fits: "varchar_ok db_sel 200 (sel_notes sel_a)"
    by (simp add: varchar_ok_def db_eval)
  have jtable: "get_object_or_404 table_id (db_tables db_sel) 1 = Inr table7"
    by (simp add: db_eval store_eval)
  have jorder: "first_open_order db_sel 1 = Some order1"
    by (simp add: db_eval store_eval)
  have form: "StartOrderForm (req_POST ?J) = Some (None, Some 5, Some 6)"
    by (simp add: post_request_def form_eval store_eval text_eval)
  have occ: "existing_numeric_labels db_sel order1 = {1, 2, 3, 4}"
    by (simp add: existing_numeric_labels_def seat_labels_def db_eval text_eval)
  have no: "existing_numeric_labels db_sel order1 \<inter> {5..6} = {}"
    unfolding occ by auto
  have jfits: "\<forall>i \<in> {5..6}. varchar_ok db_sel 10 (str i)"
    by (auto simp: varchar_ok_def db_eval intro!: str_fits)
  note TR = staff_required_gates_start_order_only [OF none(1), where db = db_sel and now = 100
      and tid = 1 and oid = 1 and staff = 1 and order = order1 and table = table7]
  note TM = staff_required_gates_start_order_only [OF none(2), where db = db_sel
      and selection = sel_a and target_seat = "seat_row 3 ''3''"]
  note TJ = staff_required_gates_start_order_only [OF none(3), where db = db_sel and tid = 1
      and joined_table = table7 and open_order = order1 and count = None and a = 5 and b = 6]
  from TR have 1: "start_order 100 1 ?R db_sel
       = (Returned (Redirect Staff_login []) [(WARNING, ''Please enter your staff code.'')], db_sel)"
    by blast
  from TR have 2: "add_seat 1 ?R db_sel = add_seat 1 (post_request [] (Some 1)) db_sel"
    unfolding upd by blast
  from TR post(1) order table have 3: "close_order 1 ?R db_sel
       = (Returned (Redirect (Room_tables 2) []) [(INFO, ''Order closed.'')], order_delete 1 db_sel)"
    unfolding room by blast
  have 4: "db_orders (order_delete 1 db_sel) = []" "db_selections (order_delete 1 db_sel) = []"
    by (simp_all add: order_delete_def Let_def db_eval)
  from TM post(2) sel seat fits
  have "move_selection ?M db_sel =
              (Returned (JsonResponse 200 [(''status'', ''ok'')]) [],
               db_sel\<lparr>db_selections :=
                    map (\<lambda>x. if sel_id x = sel_id sel_a
                              then x\<lparr>sel_seat := seat_id (seat_row 3 ''3''), sel_item := sel_item sel_a,
                                     sel_notes := sel_notes sel_a\<rparr>
                              else x) (db_selections db_sel)\<rparr>)"
    by blast
  then have 5: "map sel_seat (db_selections (snd (move_selection ?M db_sel))) = [3, 2]"
    by (simp add: db_eval)
  from TJ post(3) jtable jorder form no jfits
  have "snd (join_order 1 ?J db_sel) =
              db_sel\<lparr>db_seats := db_seats db_sel @
                     map (\<lambda>(j, i). \<lparr>seat_id = next_seat_id db_sel + int j, seat_order = order_id order1,
                                     seat_label = str i, seat_assigned_to = None\<rparr>)
                       (zip [0..<length [5..6]] [5..6]),
                 next_seat_id := next_seat_id db_sel + int (length [5..6])\<rparr>"
    by blast
  then have 6: "map seat_label (db_seats (snd (join_order 1 ?J db_sel)))
       = [''1'', ''2'', ''3'', ''4'', ''5'', ''6'']"
    "map seat_assigned_to (db_seats (snd (join_order 1 ?J db_sel)))
       = [None, None, None, None, None, None]"
    by (simp_all add: upto.simps str_eval db_eval)
  from none(1) 1 2 order table 3 4 5 6 show ?thesis by simp
qed

text \<open>
  C2, as the claim words it, says that every write operation without a staff identity is
  redirected to the login page and changes nothing. \<^verbatim>\<open>close_order\<close> on a request
  without a session entry redirects to the room view and deletes the order with its seats.
\<close>

theorem close_order_without_staff_counterexample:
  "session_staff (post_request [] None) = None
   \<and> db_orders db_1234 = [order1]
   \<and> fst (close_order 1 (post_request [] None) db_1234)
       = Returned (Redirect (Room_tables 2) []) [(INFO, ''Order closed.'')]
   \<and> db_orders (snd (close_order 1 (post_request [] None) db_1234)) = []
   \<and> db_seats (snd (close_order 1 (post_request [] None) db_1234)) = []"
  by (simp add: close_eval Let_def db_eval store_eval)

section \<open>The seats of a new order\<close>



section \<open>Atomicity of starting an order\<close>

text \<open>
  C4: \<^verbatim>\<open>start_order\<close> is atomic. The order and its first batch of seats are written
  inside one \<^verbatim>\<open>transaction.atomic()\<close> block: when the creation of the seats fails with
  an error \<open>e\<close>, the view raises \<open>e\<close> and the state is the one before the request, the
  new order included in the roll-back; when it succeeds, the order and the seats are both
  stored. The seats fail, for instance, on a backend that enforces the length of the label
  column when a label has eleven characters.
\<close>

theorem start_order_atomic:
  assumes table: "get_object_or_404 table_id (db_tables db) tid = Inr table"
    and sess: "session_staff request = Some sid"
    and staff: "objects_get staff_id (db_staff_members db) sid = Inr staff_member"
    and count: "post_seat_count request = Some n"
    and rng: "parse_range (querydict_get (req_POST request) ''my_start'')
                (querydict_get (req_POST request) ''my_end'') = Inr seat_range"
    and bounds: "(lo, hi) = (case seat_range of Some (a, b) \<Rightarrow> (a, b) | None \<Rightarrow> (1, n))"
  shows "case bulk_create (seats_for_range (next_order_id db) None lo hi)
                (snd (order_create table staff_member now db)) of
           Inl e \<Rightarrow> start_order now tid request db = (Raised e, db)
         | Inr db2 \<Rightarrow>
             db_orders (snd (start_order now tid request db))
               = db_orders db @ [fst (order_create table staff_member now db)]
             \<and> db_seats (snd (start_order now tid request db)) = db_seats db2"
proof (cases "bulk_create (seats_for_range (next_order_id db) None lo hi)
                (snd (order_create table staff_member now db))")
  case (Inl e)
  then show ?thesis
    using start_order_rolls_back [OF table sess staff count rng bounds] by simp
next
  case (Inr db2)
  have "db_orders db2 = db_orders db @ [fst (order_create table staff_member now db)]"
    by (subst bulk_create_Inr(1) [OF Inr]) (simp add: order_create_def Let_def)
  then show ?thesis
    using start_order_commits [OF table sess staff count rng bounds Inr] Inr by simp
qed

theorem start_order_atomic_witness:
  "get_object_or_404 table_id (db_tables empty_db) 1 = Inr table7
   \<and> session_staff (post_request [(''my_start'', ''10000000000''), (''my_end'', ''10000000000'')] (Some 1)) = Some 1
   \<and> objects_get staff_id (db_staff_members empty_db) 1 = Inr ann
   \<and> bulk_create (seats_for_range (next_order_id empty_db) None 10000000000 10000000000)
        (snd (order_create table7 ann 100 empty_db)) = Inl DataError
   \<and> start_order 100 1
        (post_request [(''my_start'', ''10000000000''), (''my_end'', ''10000000000'')] (Some 1)) empty_db
      = (Raised DataError, empty_db)"
proof -
  let ?req = "post_request [(''my_start'', ''10000000000''), (''my_end'', ''10000000000'')] (Some 1)"
  have table: "get_object_or_404 table_id (db_tables empty_db) 1 = Inr table7"
    by (simp add: db_eval store_eval)
  have sess: "session_staff ?req = Some 1"
    by (simp add: db_eval store_eval)
  have staff: "objects_get staff_id (db_staff_members empty_db) 1 = Inr ann"
    by (simp add: db_eval store_eval)
  have count: "post_seat_count ?req = Some 12"
    by (simp add: post_seat_count_def db_eval store_eval)
  have rng: "parse_range (querydict_get (req_POST ?req) ''my_start'')
                (querydict_get (req_POST ?req) ''my_end'') = Inr (Some (10000000000, 10000000000))"
    by (simp add: parse_range_def db_eval store_eval text_eval)
  have bounds: "(10000000000, 10000000000)
      = (case Some (10000000000::int, 10000000000::int) of Some (a, b) \<Rightarrow> (a, b) | None \<Rightarrow> (1, 12))"
    by simp
  have fails: "bulk_create (seats_for_range (next_order_id empty_db) None 10000000000 10000000000)
        (snd (order_create table7 ann 100 empty_db)) = Inl DataError"
    by (simp add: bulk_create_def seats_for_range_def order_create_def varchar_ok_def
          Let_def db_eval str_eval)
  from start_order_atomic [OF table sess staff count rng bounds, of 100]
  have "start_order 100 1 ?req empty_db = (Raised DataError, empty_db)"
    by (simp add: fails)
  with table sess staff fails show ?thesis by simp
qed

section \<open>Uniqueness of seat labels within an order\<close>

text \<open>
  C5: the labels of the seats of one order are pairwise distinct, and the operations that
  create seats keep it so. A state that satisfies \<open>unique_together\<close> still does after
  \<^verbatim>\<open>start_order\<close>, \<^verbatim>\<open>add_seat\<close> and \<^verbatim>\<open>join_order\<close>, whatever the request. Moreover the
  labels these views compute never collide, so the constraint never rejects them:
  \<^verbatim>\<open>start_order\<close> writes distinct labels to an order no stored seat refers to, the
  label \<^verbatim>\<open>max + 1\<close> that \<^verbatim>\<open>add_seat\<close> computes is the label of no seat of the order, and an
  explicit range without overlap contains no label of a seat of the order; none of the
  three views raises \<^verbatim>\<open>IntegrityError\<close>.
\<close>

theorem seat_labels_stay_unique:
  "(unique_together db \<longrightarrow>
      unique_together (snd (start_order now tid request db))
      \<and> unique_together (snd (add_seat oid request db))
      \<and> unique_together (snd (join_order tid request db)))
   \<and> ((\<forall>s \<in> set (db_seats db). seat_order s \<noteq> next_order_id db) \<longrightarrow>
        fst (start_order now tid request db) \<noteq> Raised IntegrityError)
   \<and> (\<forall>l. auto_label db order = Inr l \<longrightarrow> l \<notin> set (seat_labels db (order_id order)))
   \<and> fst (add_seat oid request db) \<noteq> Raised IntegrityError
   \<and> (0 \<le> a \<longrightarrow> existing_numeric_labels db order \<inter> {a..b} = {} \<longrightarrow>
        (\<forall>i \<in> {a..b}. str i \<notin> set (seat_labels db (order_id order))))
   \<and> fst (join_order tid request db) \<noteq> Raised IntegrityError"
proof (intro conjI impI allI)
  show "unique_together (snd (start_order now tid request db))" if "unique_together db"
    using that by (rule start_order_unique)
  show "unique_together (snd (add_seat oid request db))" if "unique_together db"
    using that by (rule add_seat_unique)
  show "unique_together (snd (join_order tid request db))" if "unique_together db"
    using that by (rule join_order_unique)
  show "fst (start_order now tid request db) \<noteq> Raised IntegrityError"
    if "\<forall>s \<in> set (db_seats db). seat_order s \<noteq> next_order_id db"
    using that by (rule start_order_not_integrity)
  show "l \<notin> set (seat_labels db (order_id order))" if "auto_label db order = Inr l" for l
    using that by (rule auto_label_fresh)
  show "fst (add_seat oid request db) \<noteq> Raised IntegrityError"
    by (rule add_seat_not_integrity)
  show "\<forall>i \<in> {a..b}. str i \<notin> set (seat_labels db (order_id order))"
    if a: "0 \<le> a" and no: "existing_numeric_labels db order \<inter> {a..b} = {}"
  proof
    fix i assume "i \<in> {a..b}"
    then have "(order_id order, str i, None) \<in> set (seats_for_range (order_id order) None a b)"
      by (auto simp: seats_for_range_def)
    with no_overlap_fresh [OF a no, of None]
    show "str i \<notin> set (seat_labels db (order_id order))" by force
  qed
  show "fst (join_order tid request db) \<noteq> Raised IntegrityError"
    by (rule join_order_not_integrity)
qed

theorem seat_labels_stay_unique_witness:
  "unique_together db_1234
   \<and> unique_together (snd (start_order 100 1 (post_request [(''seat_count'', ''4'')] (Some 1)) db_1234))
   \<and> unique_together (snd (add_seat 1 (post_request [(''seat_count'', ''4'')] (Some 1)) db_1234))
   \<and> unique_together (snd (join_order 1
        (post_request [(''my_seat_start'', ''5''), (''my_seat_end'', ''6'')] (Some 1)) db_1234))
   \<and> fst (start_order 100 1 (post_request [(''seat_count'', ''4'')] (Some 1)) db_1234)
       \<noteq> Raised IntegrityError
   \<and> auto_label db_1234 order1 = Inr ''5''
   \<and> ''5'' \<notin> set (seat_labels db_1234 1)
   \<and> existing_numeric_labels db_1234 order1 \<inter> {5..6} = {}
   \<and> str 5 \<notin> set (seat_labels db_1234 1)
   \<and> str 6 \<notin> set (seat_labels db_1234 1)"
proof -
  let ?S = "post_request [(''seat_count'', ''4'')] (Some 1)"
  let ?J = "post_request [(''my_seat_start'', ''5''), (''my_seat_end'', ''6'')] (Some 1)"
  have inv: "unique_together db_1234"
    by (simp add: unique_together_def db_eval)
  have fresh: "\<forall>s \<in> set (db_seats db_1234). seat_order s \<noteq> next_order_id db_1234"
    by (simp add: db_eval)
  have lab: "auto_label db_1234 order1 = Inr ''5''"
    by (simp add: auto_label_def seat_labels_def max_default_def db_eval text_eval str_eval)
  have oid: "order_id order1 = 1"
    by (simp add: order1_def)
  have occ: "existing_numeric_labels db_1234 order1 = {1, 2, 3, 4}"
    by (simp add: existing_numeric_labels_def seat_labels_def db_eval text_eval)
  have no: "existing_numeric_labels db_1234 order1 \<inter> {5..6} = {}"
    unfolding occ by auto
  note T = seat_labels_stay_unique [where db = db_1234 and now = 100 and tid = 1 and request = ?S
      and oid = 1 and order = order1 and a = 5 and b = 6]
  have j: "unique_together (snd (join_order 1 ?J db_1234))"
    using seat_labels_stay_unique [where db = db_1234 and now = 100 and tid = 1 and request = ?J
      and oid = 1 and order = order1 and a = 5 and b = 6] inv
    by blast
  have five: "(5::int) \<in> {5..6}" and six: "(6::int) \<in> {5..6}" by simp_all
  from T inv fresh no five six
  have "unique_together (snd (start_order 100 1 ?S db_1234))"
    and "unique_together (snd (add_seat 1 ?S db_1234))"
    and "fst (start_order 100 1 ?S db_1234) \<noteq> Raised IntegrityError"
    and "\<forall>l. auto_label db_1234 order1 = Inr l \<longrightarrow> l \<notin> set (seat_labels db_1234 (order_id order1))"
    and "str 5 \<notin> set (seat_labels db_1234 (order_id order1))"
    and "str 6 \<notin> set (seat_labels db_1234 (order_id order1))"
    by simp_all
  with inv j lab no oid show ?thesis by simp
qed

section \<open>Validation of the seat range\<close>

text \<open>
  C6: a \<^verbatim>\<open>start_order\<close> or \<^verbatim>\<open>join_order\<close> request whose seat range is malformed or
  contradictory (start greater than end, only one of the two given, end beyond the seat
  count) is to be answered with a validation message and no change of state.
  \<^verbatim>\<open>join_order\<close> does this: it runs \<^verbatim>\<open>StartOrderForm\<close>, which rejects these inputs
  (\<open>StartOrderForm_rejects\<close>), and leaves the state alone (\<open>join_order_invalid_form\<close>).
  \<^verbatim>\<open>start_order\<close> never runs the form. Evaluated on a table without orders: the
  reversed range [5, 3] stores an order with no seat and reports success; a lone
  \<^verbatim>\<open>my_start\<close> stores an order with the twelve default seats; the range [3, 6] with
  \<^verbatim>\<open>seat_count\<close> 2 stores the seats "3" to "6".
\<close>

theorem start_order_accepts_malformed_range:
  "start_order 100 1 (post_request [(''my_start'', ''5''), (''my_end'', ''3'')] (Some 1)) empty_db
   = (Returned (Redirect (Table_detail 1) []) [(SUCCESS, ''Order started on Table 7 with 0 seats.'')],
      empty_db\<lparr>db_orders := [order1], next_order_id := 2,
               db_staff_logs := [\<lparr>log_staff = 1, log_action = ''started order #1 on table 7 with 0 seats''\<rparr>]\<rparr>)
   \<and> fst (start_order 100 1 (post_request [(''my_start'', ''5'')] (Some 1)) empty_db)
     = Returned (Redirect (Table_detail 1) []) [(SUCCESS, ''Order started on Table 7 with 12 seats.'')]
   \<and> db_orders (snd (start_order 100 1 (post_request [(''my_start'', ''5'')] (Some 1)) empty_db))
     = [order1]
   \<and> seat_labels (snd (start_order 100 1
        (post_request [(''seat_count'', ''2''), (''my_start'', ''3''), (''my_end'', ''6'')] (Some 1)) empty_db)) 1
     = [''3'', ''4'', ''5'', ''6'']"
proof -
  have 1: "start_order 100 1 (post_request [(''my_start'', ''5''), (''my_end'', ''3'')] (Some 1)) empty_db
   = (Returned (Redirect (Table_detail 1) []) [(SUCCESS, ''Order started on Table 7 with 0 seats.'')],
      empty_db\<lparr>db_orders := [order1], next_order_id := 2,
               db_staff_logs := [\<lparr>log_staff = 1, log_action = ''started order #1 on table 7 with 0 seats''\<rparr>]\<rparr>)"
    by (simp add: start_eval Let_def db_eval store_eval text_eval str_eval)
  have 2: "fst (start_order 100 1 (post_request [(''my_start'', ''5'')] (Some 1)) empty_db)
     = Returned (Redirect (Table_detail 1) []) [(SUCCESS, ''Order started on Table 7 with 12 seats.'')]"
    by (simp add: start_eval Let_def upto.simps db_eval store_eval text_eval str_eval)
  have 3: "db_orders (snd (start_order 100 1 (post_request [(''my_start'', ''5'')] (Some 1)) empty_db))
     = [order1]"
    by (simp add: start_eval Let_def upto.simps db_eval store_eval text_eval str_eval)
  have 4: "seat_labels (snd (start_order 100 1
        (post_request [(''seat_count'', ''2''), (''my_start'', ''3''), (''my_end'', ''6'')] (Some 1)) empty_db)) 1
     = [''3'', ''4'', ''5'', ''6'']"
    by (simp add: start_eval Let_def upto.simps db_eval store_eval text_eval str_eval)
  from 1 2 3 4 show ?thesis by simp
qed

section \<open>Adding a seat\<close>



section \<open>Adding a selection\<close>



section \<open>Moving a selection\<close>




section \<open>The seat visibility filter\<close>



end
